theory Spec2Isabelle
  imports Main
begin

section \<open>The patch application engine of qualityforge (tools/apply\_path.py)\<close>

text \<open>
  A shallow embedding of \<^verbatim>\<open>ApplyPatchTool\<close>. Python's \<^verbatim>\<open>str\<close> is \<^typ>\<open>string\<close>
  (one \<^typ>\<open>char\<close> per code point below 256), Python's unbounded \<^verbatim>\<open>int\<close> is \<^typ>\<open>int\<close>,
  a caught exception is the text of its message (\<^verbatim>\<open>str(e)\<close>), and the file system is an
  explicit state that every operation takes and returns. Leading underscores of the
  source's method names are dropped.
\<close>

subsection \<open>The parsed diff, as the code reads it from the unidiff library\<close>

text \<open>
  A line of a hunk is asked \<^verbatim>\<open>is_added\<close>, \<^verbatim>\<open>is_removed\<close> and for its \<^verbatim>\<open>value\<close>;
  a line that is neither added nor removed is handled as a context line.
\<close>

datatype line_type = Added | Removed | Context

record line =
  line_type :: line_type
  line_value :: string

definition is_added :: "line \<Rightarrow> bool" where
  "is_added l \<longleftrightarrow> line_type l = Added"

definition is_removed :: "line \<Rightarrow> bool" where
  "is_removed l \<longleftrightarrow> line_type l = Removed"

record hunk =
  source_start :: int
  source_length :: int
  target_start :: int
  target_length :: int
  hunk_lines :: "line list"

text \<open>
  \<^verbatim>\<open>PatchedFile\<close>: a list of hunks with a path and the two flags the dispatcher tests.
  \<^verbatim>\<open>added\<close> and \<^verbatim>\<open>removed\<close> are the library's counts of added and removed lines over
  all hunks; \<^verbatim>\<open>len(patched_file)\<close> is the number of hunks.
\<close>

record patched_file =
  path :: string
  is_added_file :: bool
  is_removed_file :: bool
  hunks :: "hunk list"

definition added :: "patched_file \<Rightarrow> int" where
  "added pf = int (length (filter is_added (concat (map hunk_lines (hunks pf)))))"

definition removed :: "patched_file \<Rightarrow> int" where
  "removed pf = int (length (filter is_removed (concat (map hunk_lines (hunks pf)))))"

subsection \<open>Python list slicing\<close>

text \<open>
  A slice bound of a list of length \<open>n\<close>: a negative bound counts from the end, and
  every bound is clipped into \<open>0..n\<close>. Slicing never raises.
\<close>

definition slice_bound :: "int \<Rightarrow> nat \<Rightarrow> nat" where
  "slice_bound i n =
     (if i < 0 then (if i + int n < 0 then 0 else nat (i + int n))
      else if int n < i then n else nat i)"

definition slice_to :: "'a list \<Rightarrow> int \<Rightarrow> 'a list" where
  \<comment> \<open>\<^verbatim>\<open>xs[:j]\<close>\<close>
  "slice_to xs j = take (slice_bound j (length xs)) xs"

definition slice_from :: "'a list \<Rightarrow> int \<Rightarrow> 'a list" where
  \<comment> \<open>\<^verbatim>\<open>xs[i:]\<close>\<close>
  "slice_from xs i = drop (slice_bound i (length xs)) xs"

definition slice :: "'a list \<Rightarrow> int \<Rightarrow> int \<Rightarrow> 'a list" where
  \<comment> \<open>\<^verbatim>\<open>xs[i:j]\<close>\<close>
  "slice xs i j =
     (let a = slice_bound i (length xs); b = slice_bound j (length xs)
      in take (b - a) (drop a xs))"

subsection \<open>HunkApplier\<close>

text \<open>
  The loop of \<^verbatim>\<open>_apply_single_hunk\<close> over the lines of a hunk: a removed line goes to
  \<^verbatim>\<open>old_lines\<close>, an added line to \<^verbatim>\<open>new_lines\<close>, any other line to both.
\<close>

fun split_hunk_lines :: "line list \<Rightarrow> string list \<times> string list" where
  "split_hunk_lines [] = ([], [])"
| "split_hunk_lines (l # ls) =
     (let (old_lines, new_lines) = split_hunk_lines ls
      in if is_removed l then (line_value l # old_lines, new_lines)
         else if is_added l then (old_lines, line_value l # new_lines)
         else (line_value l # old_lines, line_value l # new_lines))"

definition old_lines :: "hunk \<Rightarrow> string list" where
  "old_lines h = fst (split_hunk_lines (hunk_lines h))"

definition new_lines :: "hunk \<Rightarrow> string list" where
  "new_lines h = snd (split_hunk_lines (hunk_lines h))"

definition old_count :: "hunk \<Rightarrow> int" where
  \<comment> \<open>\<^verbatim>\<open>len([l for l in hunk if not l.is_added])\<close>\<close>
  "old_count h = int (length (filter (\<lambda>l. \<not> is_added l) (hunk_lines h)))"

text \<open>
  \<^verbatim>\<open>_apply_single_hunk\<close>. The source computes \<^verbatim>\<open>file_lines_to_check\<close> under the comment
  ``Validate that the old lines match the file content'' and never reads it again.
\<close>

definition apply_single_hunk :: "string list \<Rightarrow> hunk \<Rightarrow> string list" where
  "apply_single_hunk lines h =
     (let target_line = target_start h - 1;
          file_lines_to_check = slice lines target_line (target_line + old_count h);
          new_content = slice_to lines target_line @ new_lines h
                        @ slice_from lines (target_line + old_count h)
      in new_content)"

text \<open>\<^verbatim>\<open>_apply_hunks_to_content\<close>: the hunks in reversed list order, one after the other.\<close>

definition apply_hunks_to_content :: "string list \<Rightarrow> patched_file \<Rightarrow> string list" where
  "apply_hunks_to_content original_lines pf =
     foldl apply_single_hunk original_lines (rev (hunks pf))"

subsection \<open>Paths (pathlib on POSIX)\<close>

text \<open>
  A \<^verbatim>\<open>Path\<close> is its root flag and its components. Parsing a string drops empty and
  \<^verbatim>\<open>.\<close> components and keeps \<^verbatim>\<open>..\<close>, as pathlib does; nothing is resolved against the
  file system.
\<close>

datatype Path = PosixPath (is_absolute: bool) (parts: "string list")

fun split_on :: "char \<Rightarrow> string \<Rightarrow> string list" where
  "split_on sep [] = [[]]"
| "split_on sep (c # cs) =
     (if c = sep then [] # split_on sep cs
      else (case split_on sep cs of [] \<Rightarrow> [[c]] | w # ws \<Rightarrow> (c # w) # ws))"

definition Path_of :: "string \<Rightarrow> Path" where
  \<comment> \<open>\<^verbatim>\<open>Path(s)\<close>\<close>
  "Path_of s =
     PosixPath (take 1 s = ''/'') (filter (\<lambda>c. c \<noteq> [] \<and> c \<noteq> ''.'') (split_on CHR ''/'' s))"

definition joinpath :: "Path \<Rightarrow> string \<Rightarrow> Path" where
  \<comment> \<open>\<^verbatim>\<open>p / s\<close>\<close>
  "joinpath p s =
     (let q = Path_of s
      in if is_absolute q then q else PosixPath (is_absolute p) (parts p @ parts q))"

definition parent :: "Path \<Rightarrow> Path" where
  "parent p = PosixPath (is_absolute p) (butlast (parts p))"

definition name :: "Path \<Rightarrow> string" where
  "name p = (if parts p = [] then [] else last (parts p))"

fun join :: "'a list \<Rightarrow> 'a list list \<Rightarrow> 'a list" where
  \<comment> \<open>\<^verbatim>\<open>sep.join(xs)\<close>\<close>
  "join sep [] = []"
| "join sep [x] = x"
| "join sep (x # y # ys) = x @ sep @ join sep (y # ys)"

definition str_path :: "Path \<Rightarrow> string" where
  \<comment> \<open>\<^verbatim>\<open>str(p)\<close>\<close>
  "str_path p =
     (if is_absolute p then ''/'' @ join ''/'' (parts p)
      else if parts p = [] then ''.'' else join ''/'' (parts p))"

text \<open>\<^verbatim>\<open>_resolve_file_path\<close>.\<close>

definition clean_path :: "string \<Rightarrow> string" where
  "clean_path patch_path =
     (if take 2 patch_path = ''a/'' \<or> take 2 patch_path = ''b/''
      then drop 2 patch_path else patch_path)"

definition resolve_file_path :: "string \<Rightarrow> Path \<Rightarrow> Path" where
  "resolve_file_path patch_path target_dir =
     (if is_absolute (Path_of (clean_path patch_path)) then Path_of (clean_path patch_path)
      else joinpath target_dir (clean_path patch_path))"

text \<open>
  Where a path points once its \<^verbatim>\<open>..\<close> components are resolved lexically, and whether
  that is outside a root directory.
\<close>

fun normalise :: "bool \<Rightarrow> string list \<Rightarrow> string list \<Rightarrow> string list" where
  "normalise a acc [] = rev acc"
| "normalise a acc (c # cs) =
     (if c = ''..''
      then (if acc = [] \<or> hd acc = ''..''
            then normalise a (if a then acc else c # acc) cs
            else normalise a (tl acc) cs)
      else normalise a (c # acc) cs)"

definition normpath :: "Path \<Rightarrow> string list" where
  "normpath p = normalise (is_absolute p) [] (parts p)"

definition escapes :: "Path \<Rightarrow> Path \<Rightarrow> bool" where
  "escapes root p \<longleftrightarrow>
     \<not> (is_absolute p = is_absolute root \<and>
        take (length (normpath root)) (normpath p) = normpath root)"

subsection \<open>The file system and the calls the engine makes on it\<close>

text \<open>
  A location is the list of names from the root directory down. The state holds the text
  of every regular file and the set of directories, by location, the number of clock
  readings taken so far, and the log of the calls of \<^verbatim>\<open>mkdir\<close>, \<^verbatim>\<open>copy2\<close>, \<^verbatim>\<open>write_text\<close>
  and \<^verbatim>\<open>unlink\<close> that returned, in order, with their arguments. There are no symbolic
  links. A path is resolved as the operating system does it, name by name from the root or
  from the working directory: every name is looked up in a directory, and \<^verbatim>\<open>..\<close> leads to
  the directory above. A call raises when the state says it must, or when the environment
  says the operating system refuses it (\<open>io_error\<close>, the text of the exception). The
  environment also gives the working directory, the clock and the unidiff parser.
\<close>

datatype io_op = Stat | Read | Write | Mkdir | Copy | Unlink

datatype event =
    MadeDir Path
  | Copied Path Path string
  | Wrote Path string
  | Unlinked Path

record filesystem =
  files :: "string list \<rightharpoonup> string"
  dirs :: "string list set"
  clock :: nat
  trace :: "event list"

record datetime =
  year :: nat
  month :: nat
  day :: nat
  hour :: nat
  minute :: nat
  second :: nat

record env =
  io_error :: "io_op \<Rightarrow> Path \<Rightarrow> string option"
  cwd :: "string list"
  now :: "nat \<Rightarrow> datetime"
  PatchSet :: "string \<Rightarrow> string + patched_file list"

fun walk :: "string list set \<Rightarrow> string list \<Rightarrow> string list \<Rightarrow> string list option" where
  "walk ds cur [] = Some cur"
| "walk ds cur (c # cs) =
     (if cur \<notin> ds then None
      else walk ds (if c = ''..'' then butlast cur else cur @ [c]) cs)"

definition locate :: "env \<Rightarrow> filesystem \<Rightarrow> Path \<Rightarrow> string list option" where
  "locate e fs p = walk (dirs fs) (if is_absolute p then [] else cwd e) (parts p)"

text \<open>
  \<^verbatim>\<open>Path.exists()\<close>: true for a file and for a directory, false when the path leads
  nowhere; an error of \<^verbatim>\<open>stat\<close> other than these is raised.
\<close>

definition exists_path :: "env \<Rightarrow> filesystem \<Rightarrow> Path \<Rightarrow> string + bool" where
  "exists_path e fs p =
     (case io_error e Stat p of
        Some msg \<Rightarrow> Inl msg
      | None \<Rightarrow>
          Inr (case locate e fs p of
                 None \<Rightarrow> False
               | Some l \<Rightarrow> l \<in> dirs fs \<or> files fs l \<noteq> None))"

text \<open>
  \<^verbatim>\<open>Path.read_text\<close> opens the file in text mode with universal newlines: CR LF and a
  lone CR are read as LF.
\<close>

fun universal_newlines :: "string \<Rightarrow> string" where
  "universal_newlines [] = []"
| "universal_newlines [c] = [if c = CHR 0x0D then CHR 0x0A else c]"
| "universal_newlines (c # d # cs) =
     (if c = CHR 0x0D \<and> d = CHR 0x0A then CHR 0x0A # universal_newlines cs
      else if c = CHR 0x0D then CHR 0x0A # universal_newlines (d # cs)
      else c # universal_newlines (d # cs))"

definition read_text :: "env \<Rightarrow> filesystem \<Rightarrow> Path \<Rightarrow> string + string" where
  "read_text e fs p =
     (case io_error e Read p of
        Some msg \<Rightarrow> Inl msg
      | None \<Rightarrow>
          (case locate e fs p of
             None \<Rightarrow> Inl ''[Errno 2] No such file or directory''
           | Some l \<Rightarrow>
               (case files fs l of
                  None \<Rightarrow> Inl ''[Errno 21] Is a directory''
                | Some content \<Rightarrow> Inr (universal_newlines content))))"

text \<open>\<^verbatim>\<open>Path.write_text\<close>; on POSIX the text is written as it is.\<close>

definition write_text :: "env \<Rightarrow> filesystem \<Rightarrow> Path \<Rightarrow> string \<Rightarrow> string + filesystem" where
  "write_text e fs p content =
     (case io_error e Write p of
        Some msg \<Rightarrow> Inl msg
      | None \<Rightarrow>
          (case locate e fs p of
             None \<Rightarrow> Inl ''[Errno 2] No such file or directory''
           | Some l \<Rightarrow>
               if l \<in> dirs fs then Inl ''[Errno 21] Is a directory''
               else Inr (fs\<lparr>files := (files fs)(l \<mapsto> content),
                            trace := trace fs @ [Wrote p content]\<rparr>)))"

text \<open>
  \<^verbatim>\<open>d.mkdir(parents=True, exist_ok=True)\<close> makes every missing directory on the way,
  and stops at a file; what it made before it stopped stays.
\<close>

fun walk_mkdir ::
  "(string list \<rightharpoonup> string) \<Rightarrow> string list set \<Rightarrow> string list \<Rightarrow> string list
     \<Rightarrow> bool \<times> string list set" where
  "walk_mkdir fl ds cur [] =
     (if fl cur \<noteq> None then (False, ds) else (True, insert cur ds))"
| "walk_mkdir fl ds cur (c # cs) =
     (if fl cur \<noteq> None then (False, ds)
      else walk_mkdir fl (insert cur ds) (if c = ''..'' then butlast cur else cur @ [c]) cs)"

definition mkdir_parents :: "env \<Rightarrow> filesystem \<Rightarrow> Path \<Rightarrow> (string + unit) \<times> filesystem" where
  "mkdir_parents e fs d =
     (case io_error e Mkdir d of
        Some msg \<Rightarrow> (Inl msg, fs)
      | None \<Rightarrow>
          (case walk_mkdir (files fs) (dirs fs) (if is_absolute d then [] else cwd e) (parts d) of
             (False, ds) \<Rightarrow> (Inl ''[Errno 17] File exists'', fs\<lparr>dirs := ds\<rparr>)
           | (True, ds) \<Rightarrow> (Inr (), fs\<lparr>dirs := ds, trace := trace fs @ [MadeDir d]\<rparr>)))"

text \<open>\<^verbatim>\<open>d.mkdir(exist_ok=True)\<close>: the directory above must exist.\<close>

definition mkdir :: "env \<Rightarrow> filesystem \<Rightarrow> Path \<Rightarrow> string + filesystem" where
  "mkdir e fs d =
     (case io_error e Mkdir d of
        Some msg \<Rightarrow> Inl msg
      | None \<Rightarrow>
          (case locate e fs d of
             None \<Rightarrow> Inl ''[Errno 2] No such file or directory''
           | Some l \<Rightarrow>
               if files fs l \<noteq> None then Inl ''[Errno 17] File exists''
               else Inr (fs\<lparr>dirs := insert l (dirs fs), trace := trace fs @ [MadeDir d]\<rparr>)))"

text \<open>
  \<^verbatim>\<open>shutil.copy2(src, dst)\<close>: into \<^verbatim>\<open>dst\<close>, or under the name of \<^verbatim>\<open>src\<close> into \<^verbatim>\<open>dst\<close> when that
  is a directory; a file is not copied onto itself.
\<close>

definition copy_target :: "env \<Rightarrow> filesystem \<Rightarrow> Path \<Rightarrow> Path \<Rightarrow> string list option" where
  "copy_target e fs src dst =
     map_option (\<lambda>l. if l \<in> dirs fs then l @ [name src] else l) (locate e fs dst)"

definition copy2 :: "env \<Rightarrow> filesystem \<Rightarrow> Path \<Rightarrow> Path \<Rightarrow> string + filesystem" where
  "copy2 e fs src dst =
     (case io_error e Copy src of
        Some msg \<Rightarrow> Inl msg
      | None \<Rightarrow>
          (case locate e fs src of
             None \<Rightarrow> Inl ''[Errno 2] No such file or directory''
           | Some l \<Rightarrow>
               (case files fs l of
                  None \<Rightarrow> Inl ''[Errno 21] Is a directory''
                | Some content \<Rightarrow>
                    (case copy_target e fs src dst of
                       None \<Rightarrow> Inl ''[Errno 2] No such file or directory''
                     | Some target \<Rightarrow>
                         if target = l then Inl ''source and destination are the same file''
                         else if target \<in> dirs fs then Inl ''[Errno 21] Is a directory''
                         else Inr (fs\<lparr>files := (files fs)(target \<mapsto> content),
                                      trace := trace fs @ [Copied src dst content]\<rparr>)))))"

definition unlink :: "env \<Rightarrow> filesystem \<Rightarrow> Path \<Rightarrow> string + filesystem" where
  "unlink e fs p =
     (case io_error e Unlink p of
        Some msg \<Rightarrow> Inl msg
      | None \<Rightarrow>
          (case locate e fs p of
             None \<Rightarrow> Inl ''[Errno 2] No such file or directory''
           | Some l \<Rightarrow>
               (case files fs l of
                  None \<Rightarrow> Inl ''[Errno 1] Operation not permitted''
                | Some content \<Rightarrow>
                    Inr (fs\<lparr>files := (files fs)(l := None),
                            trace := trace fs @ [Unlinked p]\<rparr>))))"

text \<open>\<^verbatim>\<open>str(n)\<close> for a natural number, and \<^verbatim>\<open>strftime("%Y%m%d_%H%M%S")\<close>.\<close>

fun str_nat :: "nat \<Rightarrow> string" where
  "str_nat n =
     (if n < 10 then [''0123456789'' ! n]
      else str_nat (n div 10) @ [''0123456789'' ! (n mod 10)])"

declare str_nat.simps [simp del]

definition zfill :: "nat \<Rightarrow> string \<Rightarrow> string" where
  "zfill w s = replicate (w - length s) (CHR ''0'') @ s"

definition strftime :: "datetime \<Rightarrow> string" where
  "strftime t =
     zfill 4 (str_nat (year t)) @ zfill 2 (str_nat (month t)) @ zfill 2 (str_nat (day t))
     @ ''_'' @ zfill 2 (str_nat (hour t)) @ zfill 2 (str_nat (minute t))
     @ zfill 2 (str_nat (second t))"

subsection \<open>BackupManager\<close>

text \<open>
  \<^verbatim>\<open>_create_backup\<close>: make the backup directory beside the file, read the clock, copy.
  What was done before an exception stays done, so the state is returned on both paths.
\<close>

definition backup_dir_of :: "Path \<Rightarrow> Path" where
  "backup_dir_of file_path = joinpath (parent file_path) ''.qualityforge_backups''"

definition backup_path_of :: "Path \<Rightarrow> string \<Rightarrow> Path" where
  "backup_path_of file_path timestamp =
     joinpath (backup_dir_of file_path) (name file_path @ ''.'' @ timestamp @ ''.backup'')"

definition create_backup :: "env \<Rightarrow> filesystem \<Rightarrow> Path \<Rightarrow> (string + Path) \<times> filesystem" where
  "create_backup e fs file_path =
     (case mkdir e fs (backup_dir_of file_path) of
        Inl msg \<Rightarrow> (Inl msg, fs)
      | Inr fs1 \<Rightarrow>
          (let timestamp = strftime (now e (clock fs1));
               fs2 = fs1\<lparr>clock := Suc (clock fs1)\<rparr>;
               backup_path = backup_path_of file_path timestamp
           in case copy2 e fs2 file_path backup_path of
                Inl msg \<Rightarrow> (Inl msg, fs2)
              | Inr fs3 \<Rightarrow> (Inr backup_path, fs3)))"

subsection \<open>Results\<close>

record PatchResult =
  success :: bool
  file_path :: string
  lines_added :: int
  lines_removed :: int
  hunks_applied :: int
  hunks_failed :: int
  backup_path :: "string option"
  error :: "string option"
  warnings :: "string list"

text \<open>The constructor with the two required fields; the others take their defaults.\<close>

definition mk_PatchResult :: "bool \<Rightarrow> string \<Rightarrow> PatchResult" where
  "mk_PatchResult s fp =
     \<lparr>success = s, file_path = fp, lines_added = 0, lines_removed = 0, hunks_applied = 0,
      hunks_failed = 0, backup_path = None, error = None, warnings = []\<rparr>"

text \<open>
  \<^verbatim>\<open>PatchApplicationResult\<close>; its \<^verbatim>\<open>success\<close> and \<^verbatim>\<open>error\<close> are written
  \<open>overall_success\<close> and \<open>overall_error\<close> to keep them apart from those of a \<^verbatim>\<open>PatchResult\<close>.
\<close>

record PatchApplicationResult =
  overall_success :: bool
  patches_applied :: int
  patches_failed :: int
  files_modified :: "string list"
  results :: "PatchResult list"
  overall_error :: "string option"

subsection \<open>The three file operations\<close>

abbreviation NL :: char where
  "NL \<equiv> CHR 0x0A"

definition rstrip_nl :: "string \<Rightarrow> string" where
  \<comment> \<open>\<^verbatim>\<open>s.rstrip('\n')\<close>\<close>
  "rstrip_nl s = rev (dropWhile (\<lambda>c. c = NL) (rev s))"

definition endswith_nl :: "string \<Rightarrow> bool" where
  \<comment> \<open>\<^verbatim>\<open>s.endswith('\n')\<close>\<close>
  "endswith_nl s \<longleftrightarrow> s \<noteq> [] \<and> last s = NL"

text \<open>
  \<^verbatim>\<open>str.splitlines(keepends=True)\<close>: a line ends at CR LF or at one of the line
  boundary characters, which stays on the line.
\<close>

definition is_linebreak :: "char \<Rightarrow> bool" where
  "is_linebreak c \<longleftrightarrow>
     c \<in> set [CHR 0x0A, CHR 0x0B, CHR 0x0C, CHR 0x0D, CHR 0x1C, CHR 0x1D, CHR 0x1E, CHR 0x85]"

fun splitlines_keepends :: "string \<Rightarrow> string list" where
  "splitlines_keepends [] = []"
| "splitlines_keepends [c] = [[c]]"
| "splitlines_keepends (c # d # cs) =
     (if c = CHR 0x0D \<and> d = NL then [c, d] # splitlines_keepends cs
      else if is_linebreak c then [c] # splitlines_keepends (d # cs)
      else (case splitlines_keepends (d # cs) of
              [] \<Rightarrow> [[c]]
            | l # ls \<Rightarrow> (c # l) # ls))"

text \<open>
  The handlers call \<^verbatim>\<open>file_path.exists()\<close> before their \<^verbatim>\<open>try\<close>: when it raises, the
  exception leaves the handler (\<open>Inl\<close>). Every other exception is caught inside and
  becomes a failed result.
\<close>

text \<open>\<^verbatim>\<open>_handle_added_file\<close>.\<close>

definition added_content :: "patched_file \<Rightarrow> string" where
  "added_content pf =
     (let content_lines =
            map (\<lambda>l. rstrip_nl (line_value l))
              (filter is_added (concat (map hunk_lines (hunks pf))));
          content = join [NL] content_lines
      in if content \<noteq> [] \<and> \<not> endswith_nl content then content @ [NL] else content)"

definition handle_added_file ::
  "env \<Rightarrow> filesystem \<Rightarrow> patched_file \<Rightarrow> Path \<Rightarrow> bool
     \<Rightarrow> string + PatchResult \<times> filesystem" where
  "handle_added_file e fs pf fp dry_run =
     (case exists_path e fs fp of
        Inl exc \<Rightarrow> Inl exc
      | Inr ex \<Rightarrow>
          Inr (if ex
               then ((mk_PatchResult False (str_path fp))
                       \<lparr>error := Some ''Cannot add file that already exists''\<rparr>, fs)
               else if dry_run
               then ((mk_PatchResult True (str_path fp))
                       \<lparr>lines_added := added pf, lines_removed := 0,
                         hunks_applied := int (length (hunks pf))\<rparr>, fs)
               else
                 (case mkdir_parents e fs (parent fp) of
                    (Inl msg, fs1) \<Rightarrow>
                      ((mk_PatchResult False (str_path fp))
                         \<lparr>error := Some (''Failed to create new file: '' @ msg)\<rparr>, fs1)
                  | (Inr u, fs1) \<Rightarrow>
                      (case write_text e fs1 fp (added_content pf) of
                         Inl msg \<Rightarrow>
                           ((mk_PatchResult False (str_path fp))
                              \<lparr>error := Some (''Failed to create new file: '' @ msg)\<rparr>, fs1)
                       | Inr fs2 \<Rightarrow>
                           ((mk_PatchResult True (str_path fp))
                              \<lparr>lines_added := added pf, lines_removed := 0,
                                hunks_applied := int (length (hunks pf))\<rparr>, fs2)))))"

text \<open>\<^verbatim>\<open>_handle_removed_file\<close>.\<close>

definition handle_removed_file ::
  "env \<Rightarrow> filesystem \<Rightarrow> patched_file \<Rightarrow> Path \<Rightarrow> bool
     \<Rightarrow> string + PatchResult \<times> filesystem" where
  "handle_removed_file e fs pf fp dry_run =
     (case exists_path e fs fp of
        Inl exc \<Rightarrow> Inl exc
      | Inr ex \<Rightarrow>
          Inr (if \<not> ex
               then ((mk_PatchResult False (str_path fp))
                       \<lparr>error := Some ''Cannot remove file that doesn't exist''\<rparr>, fs)
               else if dry_run
               then ((mk_PatchResult True (str_path fp))
                       \<lparr>lines_added := 0, lines_removed := removed pf,
                         hunks_applied := int (length (hunks pf))\<rparr>, fs)
               else
                 (case create_backup e fs fp of
                    (Inl msg, fs1) \<Rightarrow>
                      ((mk_PatchResult False (str_path fp))
                         \<lparr>error := Some (''Failed to remove file: '' @ msg)\<rparr>, fs1)
                  | (Inr bp, fs1) \<Rightarrow>
                      (case unlink e fs1 fp of
                         Inl msg \<Rightarrow>
                           ((mk_PatchResult False (str_path fp))
                              \<lparr>error := Some (''Failed to remove file: '' @ msg)\<rparr>, fs1)
                       | Inr fs2 \<Rightarrow>
                           ((mk_PatchResult True (str_path fp))
                              \<lparr>lines_added := 0, lines_removed := removed pf,
                                hunks_applied := int (length (hunks pf)),
                                backup_path := Some (str_path bp)\<rparr>, fs2)))))"

text \<open>\<^verbatim>\<open>_handle_modified_file\<close>.\<close>

definition handle_modified_file ::
  "env \<Rightarrow> filesystem \<Rightarrow> patched_file \<Rightarrow> Path \<Rightarrow> bool
     \<Rightarrow> string + PatchResult \<times> filesystem" where
  "handle_modified_file e fs pf fp dry_run =
     (case exists_path e fs fp of
        Inl exc \<Rightarrow> Inl exc
      | Inr ex \<Rightarrow>
          Inr (if \<not> ex
               then ((mk_PatchResult False (str_path fp))
                       \<lparr>error := Some ''Cannot modify file that doesn't exist''\<rparr>, fs)
               else
                 (case read_text e fs fp of
                    Inl msg \<Rightarrow>
                      ((mk_PatchResult False (str_path fp))
                         \<lparr>error := Some (''Failed to apply patch: '' @ msg)\<rparr>, fs)
                  | Inr original_content \<Rightarrow>
                      (let original_lines = splitlines_keepends original_content;
                           modified_lines = apply_hunks_to_content original_lines pf
                       in if dry_run
                          then ((mk_PatchResult True (str_path fp))
                                  \<lparr>lines_added := added pf, lines_removed := removed pf,
                                    hunks_applied := int (length (hunks pf))\<rparr>, fs)
                          else
                            (case create_backup e fs fp of
                               (Inl msg, fs1) \<Rightarrow>
                                 ((mk_PatchResult False (str_path fp))
                                    \<lparr>error := Some (''Failed to apply patch: '' @ msg)\<rparr>, fs1)
                             | (Inr bp, fs1) \<Rightarrow>
                                 (case write_text e fs1 fp (concat modified_lines) of
                                    Inl msg \<Rightarrow>
                                      ((mk_PatchResult False (str_path fp))
                                         \<lparr>error := Some (''Failed to apply patch: '' @ msg)\<rparr>,
                                       fs1)
                                  | Inr fs2 \<Rightarrow>
                                      ((mk_PatchResult True (str_path fp))
                                         \<lparr>lines_added := added pf, lines_removed := removed pf,
                                           hunks_applied := int (length (hunks pf)),
                                           backup_path := Some (str_path bp)\<rparr>, fs2)))))))"

subsection \<open>PatchOrchestrator\<close>

text \<open>
  \<^verbatim>\<open>_apply_single_file_patch\<close>: the handler for the kind of file, and the \<^verbatim>\<open>except\<close>
  branch for what leaves the handler, a failed result under the path of the diff.
\<close>

definition apply_single_file_patch ::
  "env \<Rightarrow> filesystem \<Rightarrow> patched_file \<Rightarrow> Path \<Rightarrow> bool \<Rightarrow> PatchResult \<times> filesystem" where
  "apply_single_file_patch e fs pf target_dir dry_run =
     (let fp = resolve_file_path (path pf) target_dir
      in case (if is_added_file pf then handle_added_file e fs pf fp dry_run
               else if is_removed_file pf then handle_removed_file e fs pf fp dry_run
               else handle_modified_file e fs pf fp dry_run) of
           Inr result \<Rightarrow> result
         | Inl exc \<Rightarrow> ((mk_PatchResult False (path pf))\<lparr>error := Some exc\<rparr>, fs))"

text \<open>
  \<^verbatim>\<open>_parse_patch\<close>: the library's parser raises or returns the files of the diff; an
  empty result is raised as an error, and every exception, that one included, is raised
  again with a prefix.
\<close>

definition parse_patch :: "env \<Rightarrow> string \<Rightarrow> string + patched_file list" where
  "parse_patch e patch_content =
     (case PatchSet e patch_content of
        Inl msg \<Rightarrow> Inl (''Failed to parse patch: '' @ msg)
      | Inr patchset \<Rightarrow>
          if patchset = [] then Inl (''Failed to parse patch: '' @ ''Empty or invalid patch content'')
          else Inr patchset)"

text \<open>
  The body of the inner loop of \<^verbatim>\<open>apply_patches\<close> after a result is produced, the inner
  loop over the files of one diff, and the outer loop over the diff texts with their
  positions. The accumulators travel in a \<^verbatim>\<open>PatchApplicationResult\<close>.
\<close>

definition record_result :: "PatchResult \<Rightarrow> PatchApplicationResult \<Rightarrow> PatchApplicationResult" where
  "record_result r acc =
     (if success r
      then acc\<lparr>results := results acc @ [r],
               patches_applied := patches_applied acc + 1,
               files_modified :=
                 (if file_path r \<notin> set (files_modified acc)
                  then files_modified acc @ [file_path r] else files_modified acc)\<rparr>
      else acc\<lparr>results := results acc @ [r],
               patches_failed := patches_failed acc + 1\<rparr>)"

fun apply_patchset ::
  "env \<Rightarrow> Path \<Rightarrow> bool \<Rightarrow> patched_file list \<Rightarrow> PatchApplicationResult \<times> filesystem
     \<Rightarrow> PatchApplicationResult \<times> filesystem" where
  "apply_patchset e target_dir dry_run [] (acc, fs) = (acc, fs)"
| "apply_patchset e target_dir dry_run (pf # pfs) (acc, fs) =
     (let (r, fs') = apply_single_file_patch e fs pf target_dir dry_run
      in apply_patchset e target_dir dry_run pfs (record_result r acc, fs'))"

definition parse_failure :: "nat \<Rightarrow> string \<Rightarrow> PatchResult" where
  "parse_failure i msg =
     (mk_PatchResult False (''patch_'' @ str_nat (i + 1)))\<lparr>error := Some msg\<rparr>"

fun apply_patches_loop ::
  "env \<Rightarrow> Path \<Rightarrow> bool \<Rightarrow> nat \<Rightarrow> string list \<Rightarrow> PatchApplicationResult \<times> filesystem
     \<Rightarrow> PatchApplicationResult \<times> filesystem" where
  "apply_patches_loop e target_dir dry_run i [] (acc, fs) = (acc, fs)"
| "apply_patches_loop e target_dir dry_run i (patch_content # rest) (acc, fs) =
     apply_patches_loop e target_dir dry_run (Suc i) rest
       (case parse_patch e patch_content of
          Inl msg \<Rightarrow>
            (acc\<lparr>results := results acc @ [parse_failure i msg],
                 patches_failed := patches_failed acc + 1\<rparr>, fs)
        | Inr patchset \<Rightarrow> apply_patchset e target_dir dry_run patchset (acc, fs))"

definition no_results :: PatchApplicationResult where
  \<comment> \<open>the accumulators before the loop; \<open>overall_success\<close> is set after it\<close>
  "no_results =
     \<lparr>overall_success = True, patches_applied = 0, patches_failed = 0,
      files_modified = [], results = [], overall_error = None\<rparr>"

definition apply_patches ::
  "env \<Rightarrow> filesystem \<Rightarrow> string list \<Rightarrow> Path \<Rightarrow> bool \<Rightarrow> PatchApplicationResult \<times> filesystem" where
  "apply_patches e fs patches target_dir dry_run =
     (let (acc, fs') = apply_patches_loop e target_dir dry_run 0 patches (no_results, fs)
      in (acc\<lparr>overall_success := (patches_failed acc = 0)\<rparr>, fs'))"

subsection \<open>Notions used to state the properties\<close>

text \<open>
  A list of hunks describes the change of the lines \<open>A\<close> into the lines \<open>B\<close>, as a
  unified diff computed between the two does: \<open>s\<close> and \<open>t\<close> are the 1-based numbers of the
  first lines of \<open>A\<close> and \<open>B\<close> not yet covered; up to the next hunk the two files agree; the
  hunk starts at these positions in the old and the new file, its header counts are those
  of its body, its old lines are in \<open>A\<close> and its new lines in \<open>B\<close>; after the last hunk the
  files agree. A start is the number of the first line of the hunk on that side, which is
  how a hunk with at least one old and one new line is numbered.
\<close>

fun describes_from :: "int \<Rightarrow> int \<Rightarrow> string list \<Rightarrow> hunk list \<Rightarrow> string list \<Rightarrow> bool" where
  "describes_from s t A [] B \<longleftrightarrow> A = B"
| "describes_from s t A (h # hs) B \<longleftrightarrow>
     (let k = nat (source_start h - s)
      in s \<le> source_start h \<and> target_start h - t = source_start h - s \<and>
         source_length h = int (length (old_lines h)) \<and>
         target_length h = int (length (new_lines h)) \<and>
         k \<le> length A \<and> take k A = take k B \<and>
         take (length (old_lines h)) (drop k A) = old_lines h \<and>
         take (length (new_lines h)) (drop k B) = new_lines h \<and>
         describes_from (source_start h + source_length h) (target_start h + target_length h)
           (drop (k + length (old_lines h)) A) hs (drop (k + length (new_lines h)) B))"

definition describes :: "string list \<Rightarrow> hunk list \<Rightarrow> string list \<Rightarrow> bool" where
  "describes A hs B \<longleftrightarrow> describes_from 1 1 A hs B"

text \<open>The log entries that are backups.\<close>

fun is_backup_event :: "event \<Rightarrow> bool" where
  "is_backup_event (Copied src dst content) = True"
| "is_backup_event ev = False"

text \<open>
  The checks that a dry run and a real run both make on a file of a diff: the path can be
  examined, the file is absent for an Add and present otherwise, and for a Modify it can
  be read.
\<close>

definition checks_pass :: "env \<Rightarrow> filesystem \<Rightarrow> patched_file \<Rightarrow> Path \<Rightarrow> bool" where
  "checks_pass e fs pf fp \<longleftrightarrow>
     exists_path e fs fp = Inr (\<not> is_added_file pf) \<and>
     (is_added_file pf \<or> is_removed_file pf \<or> \<not> isl (read_text e fs fp))"

text \<open>
  The calls that only a real run makes (making the directories and writing for an Add,
  the backup and the deletion for a Remove, the backup and the writing for a Modify) all
  return without raising.
\<close>

definition skipped_calls_return :: "env \<Rightarrow> filesystem \<Rightarrow> patched_file \<Rightarrow> Path \<Rightarrow> bool" where
  "skipped_calls_return e fs pf fp \<longleftrightarrow>
     (if is_added_file pf
      then (case mkdir_parents e fs (parent fp) of
              (Inl msg, fs1) \<Rightarrow> False
            | (Inr u, fs1) \<Rightarrow> \<not> isl (write_text e fs1 fp (added_content pf)))
      else if is_removed_file pf
      then (case create_backup e fs fp of
              (Inl msg, fs1) \<Rightarrow> False
            | (Inr bp, fs1) \<Rightarrow> \<not> isl (unlink e fs1 fp))
      else (case create_backup e fs fp of
              (Inl msg, fs1) \<Rightarrow> False
            | (Inr bp, fs1) \<Rightarrow>
                \<not> isl (write_text e fs1 fp
                         (concat (apply_hunks_to_content
                                    (splitlines_keepends (projr (read_text e fs fp))) pf)))))"

subsection \<open>Concrete inputs\<close>

text \<open>
  A repository \<^verbatim>\<open>/repo\<close> with a directory \<^verbatim>\<open>pkg\<close>, the two-line file \<^verbatim>\<open>f.py\<close> and the file
  \<^verbatim>\<open>w.py\<close> with the same two lines ending in CR LF; an environment in which no system call
  is refused, and one in which copying is refused. The parser of the examples answers as
  unidiff does on the three texts given to it: the files of \<open>ex_add_diff\<close>, an exception for
  the hunk of \<open>ex_short_diff\<close>, whose header announces two lines and whose body has one, and
  no file at all for a text without any diff header.
\<close>

definition ex_root :: Path where
  "ex_root = PosixPath True [''repo'']"

definition ex_file :: Path where
  "ex_file = PosixPath True [''repo'', ''f.py'']"

definition ex_crlf_file :: Path where
  "ex_crlf_file = PosixPath True [''repo'', ''w.py'']"

definition ex_new_file :: Path where
  "ex_new_file = PosixPath True [''repo'', ''new.py'']"

definition ex_dir :: Path where
  "ex_dir = PosixPath True [''repo'', ''pkg'']"

definition ex_alias :: Path where
  "ex_alias = PosixPath True [''repo'', ''pkg'', ''..'', ''f.py'']"

definition ex_fs :: filesystem where
  "ex_fs =
     \<lparr>files = [[''repo'', ''f.py''] \<mapsto> ''a\<newline>b\<newline>'',
               [''repo'', ''w.py''] \<mapsto> [CHR ''a'', CHR 0x0D, CHR 0x0A, CHR ''b'', CHR 0x0D, CHR 0x0A]],
      dirs = {[], [''repo''], [''repo'', ''pkg'']},
      clock = 0, trace = []\<rparr>"

text \<open>A modification of \<^verbatim>\<open>f.py\<close> whose hunk expects a first line the file does not have.\<close>

definition ex_stale_hunk :: hunk where
  "ex_stale_hunk =
     \<lparr>source_start = 1, source_length = 1, target_start = 1, target_length = 1,
      hunk_lines = [\<lparr>line_type = Removed, line_value = ''x\<newline>''\<rparr>,
                    \<lparr>line_type = Added, line_value = ''y\<newline>''\<rparr>]\<rparr>"

definition ex_stale :: patched_file where
  "ex_stale = \<lparr>path = ''f.py'', is_added_file = False, is_removed_file = False,
               hunks = [ex_stale_hunk]\<rparr>"

text \<open>A removal of \<^verbatim>\<open>f.py\<close> whose hunk lists a content the file does not have.\<close>

definition ex_remove :: patched_file where
  "ex_remove = \<lparr>path = ''f.py'', is_added_file = False, is_removed_file = True,
     hunks = [\<lparr>source_start = 1, source_length = 1, target_start = 0, target_length = 0,
               hunk_lines = [\<lparr>line_type = Removed, line_value = ''zzz\<newline>''\<rparr>]\<rparr>]\<rparr>"

text \<open>The addition of a two-line file \<^verbatim>\<open>new.py\<close>, and its diff text.\<close>

definition ex_add :: patched_file where
  "ex_add = \<lparr>path = ''new.py'', is_added_file = True, is_removed_file = False,
     hunks = [\<lparr>source_start = 0, source_length = 0, target_start = 1, target_length = 2,
               hunk_lines = [\<lparr>line_type = Added, line_value = ''x = 1\<newline>''\<rparr>,
                             \<lparr>line_type = Added, line_value = ''y = 2\<newline>''\<rparr>]\<rparr>]\<rparr>"

definition ex_add_diff :: string where
  "ex_add_diff =
     ''--- /dev/null\<newline>+++ b/new.py\<newline>@@ -0,0 +1,2 @@\<newline>+x = 1\<newline>+y = 2\<newline>''"

definition ex_short_diff :: string where
  "ex_short_diff = ''--- a/f.py\<newline>+++ b/f.py\<newline>@@ -1,2 +1,2 @@\<newline> a\<newline>''"

definition ex_PatchSet :: "string \<Rightarrow> string + patched_file list" where
  "ex_PatchSet s =
     (if s = ex_add_diff then Inr [ex_add]
      else if s = ex_short_diff then Inl ''Hunk is shorter than expected''
      else Inr [])"

definition ex_now :: datetime where
  "ex_now = \<lparr>year = 2024, month = 1, day = 1, hour = 12, minute = 0, second = 0\<rparr>"

definition ex_env :: env where
  "ex_env =
     \<lparr>io_error = (\<lambda>op p. None), cwd = [''repo''], now = (\<lambda>n. ex_now), PatchSet = ex_PatchSet\<rparr>"

definition ex_env_denied :: env where
  "ex_env_denied =
     ex_env\<lparr>io_error :=
              (\<lambda>op p. if op = Copy then Some ''[Errno 13] Permission denied'' else None)\<rparr>"

definition ex_backup :: "string list" where
  "ex_backup = [''repo'', ''.qualityforge_backups'', ''f.py.20240101_120000.backup'']"

text \<open>
  Ten lines \<open>ex_A\<close>, the nine lines \<open>ex_B\<close> obtained by deleting the first and changing
  the last, and the two hunks that \<^verbatim>\<open>diff -U1\<close> prints between them:
  \<^verbatim>\<open>@@ -1,2 +1 @@\<close> and \<^verbatim>\<open>@@ -9,2 +8,2 @@\<close>.
\<close>

definition ex_A :: "string list" where
  "ex_A = [''a\<newline>'', ''b\<newline>'', ''c\<newline>'', ''d\<newline>'', ''e\<newline>'',
           ''f\<newline>'', ''g\<newline>'', ''h\<newline>'', ''i\<newline>'', ''j\<newline>'']"

definition ex_B :: "string list" where
  "ex_B = [''b\<newline>'', ''c\<newline>'', ''d\<newline>'', ''e\<newline>'',
           ''f\<newline>'', ''g\<newline>'', ''h\<newline>'', ''i\<newline>'', ''J\<newline>'']"

definition ex_two_hunks :: patched_file where
  "ex_two_hunks = \<lparr>path = ''f.py'', is_added_file = False, is_removed_file = False,
     hunks = [\<lparr>source_start = 1, source_length = 2, target_start = 1, target_length = 1,
               hunk_lines = [\<lparr>line_type = Removed, line_value = ''a\<newline>''\<rparr>,
                             \<lparr>line_type = Context, line_value = ''b\<newline>''\<rparr>]\<rparr>,
              \<lparr>source_start = 9, source_length = 2, target_start = 8, target_length = 2,
               hunk_lines = [\<lparr>line_type = Context, line_value = ''i\<newline>''\<rparr>,
                             \<lparr>line_type = Removed, line_value = ''j\<newline>''\<rparr>,
                             \<lparr>line_type = Added, line_value = ''J\<newline>''\<rparr>]\<rparr>]\<rparr>"



text \<open>A modification whose hunk starts at line 5 of a two-line file.\<close>

definition ex_far_hunk :: hunk where
  "ex_far_hunk =
     \<lparr>source_start = 4, source_length = 0, target_start = 5, target_length = 1,
      hunk_lines = [\<lparr>line_type = Added, line_value = ''z\<newline>''\<rparr>]\<rparr>"

definition ex_far :: patched_file where
  "ex_far = \<lparr>path = ''w.py'', is_added_file = False, is_removed_file = False,
             hunks = [ex_far_hunk]\<rparr>"

text \<open>
  The places and states that the examples reach: the backup directory of \<^verbatim>\<open>/repo\<close>, the
  backups of \<^verbatim>\<open>f.py\<close> and \<^verbatim>\<open>w.py\<close> made at the time \<open>ex_now\<close>, and the states after the backup
  of \<^verbatim>\<open>f.py\<close>, after its removal, after the parent of \<^verbatim>\<open>new.py\<close> is made, after \<^verbatim>\<open>new.py\<close> is
  added, after the backup of \<^verbatim>\<open>w.py\<close> and after a line is appended to it. In the last
  environment the operating system refuses to examine any path.
\<close>

definition ex_backup_dir :: Path where
  "ex_backup_dir = PosixPath True [''repo'', ''.qualityforge_backups'']"

definition ex_backup_path :: Path where
  "ex_backup_path =
     PosixPath True [''repo'', ''.qualityforge_backups'', ''f.py.20240101_120000.backup'']"

definition ex_backed_up :: filesystem where
  "ex_backed_up =
     ex_fs\<lparr>files := (files ex_fs)(ex_backup \<mapsto> ''a\<newline>b\<newline>''),
            dirs := insert [''repo'', ''.qualityforge_backups''] (dirs ex_fs),
            clock := 1,
            trace := [MadeDir ex_backup_dir, Copied ex_file ex_backup_path ''a\<newline>b\<newline>'']\<rparr>"

definition ex_removed :: filesystem where
  "ex_removed =
     ex_backed_up\<lparr>files := (files ex_backed_up)([''repo'', ''f.py''] := None),
                  trace := trace ex_backed_up @ [Unlinked ex_file]\<rparr>"


definition ex_added :: filesystem where
  "ex_added =
     ex_fs\<lparr>files := (files ex_fs)([''repo'', ''new.py''] \<mapsto> ''x = 1\<newline>y = 2\<newline>''),
            trace := [MadeDir ex_root, Wrote ex_new_file ''x = 1\<newline>y = 2\<newline>'']\<rparr>"

definition ex_crlf_backup :: "string list" where
  "ex_crlf_backup = [''repo'', ''.qualityforge_backups'', ''w.py.20240101_120000.backup'']"

definition ex_crlf_backed_up :: filesystem where
  "ex_crlf_backed_up =
     ex_fs\<lparr>files := (files ex_fs)
              (ex_crlf_backup \<mapsto> [CHR ''a'', CHR 0x0D, CHR 0x0A, CHR ''b'', CHR 0x0D, CHR 0x0A]),
            dirs := insert [''repo'', ''.qualityforge_backups''] (dirs ex_fs),
            clock := 1,
            trace := [MadeDir ex_backup_dir,
                      Copied ex_crlf_file (PosixPath True ex_crlf_backup)
                        [CHR ''a'', CHR 0x0D, CHR 0x0A, CHR ''b'', CHR 0x0D, CHR 0x0A]]\<rparr>"

definition ex_appended :: filesystem where
  "ex_appended =
     ex_crlf_backed_up
       \<lparr>files := (files ex_crlf_backed_up)([''repo'', ''w.py''] \<mapsto> ''a\<newline>b\<newline>z\<newline>''),
        trace := trace ex_crlf_backed_up @ [Wrote ex_crlf_file ''a\<newline>b\<newline>z\<newline>'']\<rparr>"


section \<open>Properties\<close>

subsection \<open>Rules for evaluation, and the first examples evaluated\<close>

lemmas fs_defs = exists_path_def read_text_def write_text_def mkdir_def mkdir_parents_def
  copy2_def copy_target_def unlink_def create_backup_def locate_def mk_PatchResult_def Let_def

lemmas hunk_defs = apply_hunks_to_content_def apply_single_hunk_def slice_to_def slice_from_def
  slice_def slice_bound_def old_lines_def new_lines_def old_count_def is_added_def
  is_removed_def Let_def

lemmas path_defs = backup_dir_of_def backup_path_of_def joinpath_def Path_of_def parent_def
  name_def str_path_def resolve_file_path_def clean_path_def

lemmas ex_defs = ex_root_def ex_file_def ex_crlf_file_def ex_new_file_def ex_dir_def
  ex_alias_def ex_fs_def ex_stale_hunk_def ex_stale_def ex_remove_def ex_add_def
  ex_PatchSet_def ex_env_def ex_env_denied_def ex_far_hunk_def ex_far_def ex_backup_def

lemma ex_timestamp: "strftime ex_now = ''20240101_120000''"
  by (simp add: strftime_def ex_now_def zfill_def str_nat.simps)

lemma ex_backup_path_of:
  "backup_path_of ex_file (strftime (now ex_env n))
     = PosixPath True [''repo'', ''.qualityforge_backups'', ''f.py.20240101_120000.backup'']"
  by (simp add: ex_env_def ex_timestamp path_defs ex_file_def)

lemma ex_backup_made:
  "create_backup ex_env ex_fs ex_file =
     (Inr (PosixPath True [''repo'', ''.qualityforge_backups'', ''f.py.20240101_120000.backup'']),
      ex_fs\<lparr>files := (files ex_fs)(ex_backup \<mapsto> ''a\<newline>b\<newline>''),
             dirs := insert [''repo'', ''.qualityforge_backups''] (dirs ex_fs),
             clock := 1,
             trace := [MadeDir (PosixPath True [''repo'', ''.qualityforge_backups'']),
                       Copied ex_file
                         (PosixPath True [''repo'', ''.qualityforge_backups'',
                                          ''f.py.20240101_120000.backup''])
                         ''a\<newline>b\<newline>'']\<rparr>)"
  by (simp add: fs_defs path_defs ex_defs ex_timestamp)

lemma ex_exists:
  "exists_path ex_env ex_fs ex_file = Inr True"
  "exists_path ex_env ex_fs ex_dir = Inr True"
  "exists_path ex_env ex_fs ex_alias = Inr True"
  "exists_path ex_env ex_fs ex_new_file = Inr False"
  by (simp_all add: exists_path_def locate_def ex_defs)

lemma ex_read:
  "read_text ex_env ex_fs ex_file = Inr ''a\<newline>b\<newline>''"
  "read_text ex_env ex_fs ex_crlf_file = Inr ''a\<newline>b\<newline>''"
  by (simp_all add: read_text_def locate_def ex_defs)

subsection \<open>What a call that returns has done\<close>

lemma walk_mono: "walk ds cur cs = Some l \<Longrightarrow> ds \<subseteq> ds' \<Longrightarrow> walk ds' cur cs = Some l"
  by (induction cs arbitrary: cur) (auto split: if_splits)

lemma locate_mono:
  "locate e fs p = Some l \<Longrightarrow> dirs fs \<subseteq> dirs fs' \<Longrightarrow> locate e fs' p = Some l"
  by (auto simp: locate_def intro: walk_mono)

lemma mkdir_Inr:
  "mkdir e fs d = Inr fs1 \<Longrightarrow>
     \<exists>l. fs1 = fs\<lparr>dirs := insert l (dirs fs), trace := trace fs @ [MadeDir d]\<rparr>"
  by (auto simp: mkdir_def split: option.splits if_splits)

lemma copy2_Inr:
  "copy2 e fs src dst = Inr fs' \<Longrightarrow>
     \<exists>l c b. locate e fs src = Some l \<and> files fs l = Some c \<and>
       copy_target e fs src dst = Some b \<and> b \<noteq> l \<and> b \<notin> dirs fs \<and>
       fs' = fs\<lparr>files := (files fs)(b \<mapsto> c), trace := trace fs @ [Copied src dst c]\<rparr>"
  by (auto simp: copy2_def split: option.splits if_splits)

lemma create_backup_Inl:
  assumes "create_backup e fs fp = (Inl msg, fs')"
  shows "files fs' = files fs \<and> dirs fs \<subseteq> dirs fs' \<and>
         (trace fs' = trace fs \<or> trace fs' = trace fs @ [MadeDir (backup_dir_of fp)])"
proof (cases "mkdir e fs (backup_dir_of fp)")
  case (Inl m)
  with assms show ?thesis by (simp add: create_backup_def)
next
  case (Inr fs1)
  from mkdir_Inr[OF Inr] obtain l where
    fs1: "fs1 = fs\<lparr>dirs := insert l (dirs fs), trace := trace fs @ [MadeDir (backup_dir_of fp)]\<rparr>"
    by blast
  from assms Inr have "fs' = fs1\<lparr>clock := Suc (clock fs1)\<rparr>"
    by (simp add: create_backup_def Let_def split: sum.splits)
  then show ?thesis by (auto simp: fs1)
qed

lemma create_backup_Inr:
  assumes "create_backup e fs fp = (Inr bp, fs')"
  shows "\<exists>l c b. bp = backup_path_of fp (strftime (now e (clock fs))) \<and>
            locate e fs' fp = Some l \<and> files fs l = Some c \<and>
            copy_target e fs' fp bp = Some b \<and> b \<noteq> l \<and> b \<notin> dirs fs' \<and>
            files fs' = (files fs)(b \<mapsto> c) \<and> dirs fs \<subseteq> dirs fs' \<and>
            trace fs' = trace fs @ [MadeDir (backup_dir_of fp), Copied fp bp c]"
proof (cases "mkdir e fs (backup_dir_of fp)")
  case (Inl m)
  with assms show ?thesis by (simp add: create_backup_def)
next
  case (Inr fs1)
  from mkdir_Inr[OF Inr] obtain ld where
    fs1: "fs1 = fs\<lparr>dirs := insert ld (dirs fs), trace := trace fs @ [MadeDir (backup_dir_of fp)]\<rparr>"
    by blast
  let ?fs2 = "fs1\<lparr>clock := Suc (clock fs1)\<rparr>"
  let ?bp = "backup_path_of fp (strftime (now e (clock fs)))"
  have clk: "clock fs1 = clock fs" by (simp add: fs1)
  from assms Inr have cp: "copy2 e ?fs2 fp ?bp = Inr fs'" and bp: "bp = ?bp"
    by (simp_all add: create_backup_def Let_def clk split: sum.splits)
  from copy2_Inr[OF cp] obtain l c b where
    l: "locate e ?fs2 fp = Some l" and c: "files ?fs2 l = Some c"
    and b: "copy_target e ?fs2 fp ?bp = Some b" "b \<noteq> l" "b \<notin> dirs ?fs2"
    and fs': "fs' = ?fs2\<lparr>files := (files ?fs2)(b \<mapsto> c),
                          trace := trace ?fs2 @ [Copied fp ?bp c]\<rparr>"
    by blast
  have "locate e fs' fp = Some l" using l by (simp add: fs' locate_def)
  moreover have "files fs l = Some c" using c by (simp add: fs1)
  moreover have "copy_target e fs' fp ?bp = Some b"
    using b(1) by (simp add: fs' copy_target_def locate_def)
  moreover have "b \<notin> dirs fs'" using b(3) by (simp add: fs')
  moreover have "files fs' = (files fs)(b \<mapsto> c)" by (simp add: fs' fs1)
  moreover have "dirs fs \<subseteq> dirs fs'" by (auto simp: fs' fs1)
  moreover have "trace fs' = trace fs @ [MadeDir (backup_dir_of fp), Copied fp ?bp c]"
    by (simp add: fs' fs1)
  ultimately show ?thesis using bp b(2) by blast
qed

lemma read_text_Inr:
  "read_text e fs fp = Inr original \<Longrightarrow>
     \<exists>l c. locate e fs fp = Some l \<and> files fs l = Some c \<and> original = universal_newlines c"
  by (auto simp: read_text_def split: option.splits)

lemma write_text_Inr:
  "write_text e fs fp content = Inr fs' \<Longrightarrow>
     \<exists>l. locate e fs fp = Some l \<and> l \<notin> dirs fs \<and>
         fs' = fs\<lparr>files := (files fs)(l \<mapsto> content), trace := trace fs @ [Wrote fp content]\<rparr>"
  by (auto simp: write_text_def split: option.splits if_splits)

lemma unlink_Inr:
  "unlink e fs fp = Inr fs' \<Longrightarrow>
     \<exists>l c. locate e fs fp = Some l \<and> files fs l = Some c \<and>
         fs' = fs\<lparr>files := (files fs)(l := None), trace := trace fs @ [Unlinked fp]\<rparr>"
  by (auto simp: unlink_def split: option.splits if_splits)

lemma handle_modified_file_success:
  assumes h: "handle_modified_file e fs pf fp False = Inr (r, fs')" and s: "success r"
  shows "\<exists>original bp fs1. exists_path e fs fp = Inr True \<and> read_text e fs fp = Inr original \<and>
           create_backup e fs fp = (Inr bp, fs1) \<and>
           write_text e fs1 fp (concat (apply_hunks_to_content (splitlines_keepends original) pf))
             = Inr fs' \<and>
           backup_path r = Some (str_path bp)"
proof -
  from h obtain ex where ex: "exists_path e fs fp = Inr ex"
    by (cases "exists_path e fs fp") (simp_all add: handle_modified_file_def)
  from h s ex have "ex" by (cases ex) (auto simp: handle_modified_file_def mk_PatchResult_def)
  with h s ex obtain original where rd: "read_text e fs fp = Inr original"
    by (cases "read_text e fs fp") (auto simp: handle_modified_file_def mk_PatchResult_def)
  obtain res fs1 where cb: "create_backup e fs fp = (res, fs1)"
    by (cases "create_backup e fs fp")
  from h s ex \<open>ex\<close> rd cb obtain bp where bp: "res = Inr bp"
    by (cases res) (auto simp: handle_modified_file_def mk_PatchResult_def Let_def)
  from h s ex \<open>ex\<close> rd cb bp have
    "write_text e fs1 fp (concat (apply_hunks_to_content (splitlines_keepends original) pf)) = Inr fs'
     \<and> backup_path r = Some (str_path bp)"
    by (cases "write_text e fs1 fp (concat (apply_hunks_to_content (splitlines_keepends original) pf))")
       (auto simp: handle_modified_file_def mk_PatchResult_def Let_def)
  with ex \<open>ex\<close> rd cb bp show ?thesis by auto
qed

lemma handle_removed_file_success:
  assumes h: "handle_removed_file e fs pf fp False = Inr (r, fs')" and s: "success r"
  shows "\<exists>bp fs1. exists_path e fs fp = Inr True \<and>
           create_backup e fs fp = (Inr bp, fs1) \<and> unlink e fs1 fp = Inr fs' \<and>
           backup_path r = Some (str_path bp)"
proof -
  from h obtain ex where ex: "exists_path e fs fp = Inr ex"
    by (cases "exists_path e fs fp") (simp_all add: handle_removed_file_def)
  from h s ex have "ex" by (cases ex) (auto simp: handle_removed_file_def mk_PatchResult_def)
  obtain res fs1 where cb: "create_backup e fs fp = (res, fs1)"
    by (cases "create_backup e fs fp")
  from h s ex \<open>ex\<close> cb obtain bp where bp: "res = Inr bp"
    by (cases res) (auto simp: handle_removed_file_def mk_PatchResult_def)
  from h s ex \<open>ex\<close> cb bp have
    "unlink e fs1 fp = Inr fs' \<and> backup_path r = Some (str_path bp)"
    by (cases "unlink e fs1 fp") (auto simp: handle_removed_file_def mk_PatchResult_def)
  with ex \<open>ex\<close> cb bp show ?thesis by auto
qed

lemma modified_file_effect:
  assumes h: "handle_modified_file e fs pf fp False = Inr (r, fs')" and s: "success r"
  shows "\<exists>l c b. locate e fs fp = Some l \<and> files fs l = Some c \<and>
           copy_target e fs' fp (backup_path_of fp (strftime (now e (clock fs)))) = Some b \<and>
           b \<noteq> l \<and>
           files fs' = (files fs)(b \<mapsto> c,
             l \<mapsto> concat (apply_hunks_to_content
                            (splitlines_keepends (universal_newlines c)) pf)) \<and>
           trace fs' = trace fs @
             [MadeDir (backup_dir_of fp),
              Copied fp (backup_path_of fp (strftime (now e (clock fs)))) c,
              Wrote fp (concat (apply_hunks_to_content
                                  (splitlines_keepends (universal_newlines c)) pf))] \<and>
           backup_path r = Some (str_path (backup_path_of fp (strftime (now e (clock fs)))))"
proof -
  let ?bp = "backup_path_of fp (strftime (now e (clock fs)))"
  from handle_modified_file_success[OF h s] obtain original bp fs1 where
    rd: "read_text e fs fp = Inr original" and cb: "create_backup e fs fp = (Inr bp, fs1)"
    and wr: "write_text e fs1 fp (concat (apply_hunks_to_content (splitlines_keepends original) pf))
               = Inr fs'"
    and r: "backup_path r = Some (str_path bp)"
    by blast
  from read_text_Inr[OF rd] obtain l c where
    l: "locate e fs fp = Some l" and c: "files fs l = Some c" and t: "original = universal_newlines c"
    by blast
  from create_backup_Inr[OF cb] obtain l1 c1 b where
    bp: "bp = ?bp" and l1: "locate e fs1 fp = Some l1" and c1: "files fs l1 = Some c1"
    and b: "copy_target e fs1 fp bp = Some b" "b \<noteq> l1"
    and f1: "files fs1 = (files fs)(b \<mapsto> c1)" and d1: "dirs fs \<subseteq> dirs fs1"
    and t1: "trace fs1 = trace fs @ [MadeDir (backup_dir_of fp), Copied fp bp c1]"
    by blast
  from locate_mono[OF l d1] l1 have ll: "l1 = l" by simp
  with c c1 have cc: "c1 = c" by simp
  let ?new = "concat (apply_hunks_to_content (splitlines_keepends original) pf)"
  from write_text_Inr[OF wr] l1 ll have
    fs': "fs' = fs1\<lparr>files := (files fs1)(l \<mapsto> ?new), trace := trace fs1 @ [Wrote fp ?new]\<rparr>"
    by auto
  have "copy_target e fs' fp ?bp = Some b"
    using b(1) bp by (simp add: fs' copy_target_def locate_def)
  moreover have "files fs' = (files fs)(b \<mapsto> c, l \<mapsto> ?new)"
    by (simp add: fs' f1 cc)
  moreover have "trace fs' = trace fs @ [MadeDir (backup_dir_of fp), Copied fp ?bp c, Wrote fp ?new]"
    by (simp add: fs' t1 cc bp)
  ultimately show ?thesis
    using l c b(2) ll r bp t by auto
qed

lemma removed_file_effect:
  assumes h: "handle_removed_file e fs pf fp False = Inr (r, fs')" and s: "success r"
  shows "\<exists>l c b. locate e fs' fp = Some l \<and> files fs l = Some c \<and>
           copy_target e fs' fp (backup_path_of fp (strftime (now e (clock fs)))) = Some b \<and>
           b \<noteq> l \<and>
           files fs' = (files fs)(b \<mapsto> c, l := None) \<and>
           trace fs' = trace fs @
             [MadeDir (backup_dir_of fp),
              Copied fp (backup_path_of fp (strftime (now e (clock fs)))) c,
              Unlinked fp] \<and>
           backup_path r = Some (str_path (backup_path_of fp (strftime (now e (clock fs)))))"
proof -
  let ?bp = "backup_path_of fp (strftime (now e (clock fs)))"
  from handle_removed_file_success[OF h s] obtain bp fs1 where
    cb: "create_backup e fs fp = (Inr bp, fs1)" and un: "unlink e fs1 fp = Inr fs'"
    and r: "backup_path r = Some (str_path bp)"
    by blast
  from create_backup_Inr[OF cb] obtain l c b where
    bp: "bp = ?bp" and l: "locate e fs1 fp = Some l" and c: "files fs l = Some c"
    and b: "copy_target e fs1 fp bp = Some b" "b \<noteq> l"
    and f1: "files fs1 = (files fs)(b \<mapsto> c)"
    and t1: "trace fs1 = trace fs @ [MadeDir (backup_dir_of fp), Copied fp bp c]"
    by blast
  from unlink_Inr[OF un] l have
    fs': "fs' = fs1\<lparr>files := (files fs1)(l := None), trace := trace fs1 @ [Unlinked fp]\<rparr>"
    by auto
  have "copy_target e fs' fp ?bp = Some b" "locate e fs' fp = Some l"
    using b(1) l bp by (simp_all add: fs' copy_target_def locate_def)
  moreover have "files fs' = (files fs)(b \<mapsto> c, l := None)"
    by (simp add: fs' f1)
  moreover have "trace fs' = trace fs @ [MadeDir (backup_dir_of fp), Copied fp ?bp c, Unlinked fp]"
    by (simp add: fs' t1 bp)
  ultimately show ?thesis
    using c b(2) r bp by auto
qed


subsection \<open>The backup in the handlers\<close>

lemma handle_modified_file_backup_fails:
  assumes cb: "create_backup e fs fp = (Inl msg, fs1)"
      and h: "handle_modified_file e fs pf fp False = Inr (r, fs')"
  shows "\<not> success r \<and> files fs' = files fs"
proof -
  from create_backup_Inl[OF cb] have f: "files fs1 = files fs" by simp
  from h obtain ex where ex: "exists_path e fs fp = Inr ex"
    by (cases "exists_path e fs fp") (simp_all add: handle_modified_file_def)
  show ?thesis
  proof (cases "read_text e fs fp")
    case (Inl m)
    with h ex show ?thesis
      by (cases ex) (auto simp: handle_modified_file_def mk_PatchResult_def)
  next
    case (Inr original)
    with h ex cb f show ?thesis
      by (cases ex) (auto simp: handle_modified_file_def mk_PatchResult_def Let_def)
  qed
qed

lemma handle_removed_file_backup_fails:
  assumes cb: "create_backup e fs fp = (Inl msg, fs1)"
      and h: "handle_removed_file e fs pf fp False = Inr (r, fs')"
  shows "\<not> success r \<and> files fs' = files fs"
proof -
  from create_backup_Inl[OF cb] have f: "files fs1 = files fs" by simp
  from h obtain ex where ex: "exists_path e fs fp = Inr ex"
    by (cases "exists_path e fs fp") (simp_all add: handle_removed_file_def)
  with h cb f show ?thesis
    by (cases ex) (auto simp: handle_removed_file_def mk_PatchResult_def)
qed

lemma handle_added_file_no_backup:
  assumes h: "handle_added_file e fs pf fp dry_run = Inr (r, fs')"
  shows "filter is_backup_event (trace fs') = filter is_backup_event (trace fs)"
proof -
  from h obtain ex where ex: "exists_path e fs fp = Inr ex"
    by (cases "exists_path e fs fp") (simp_all add: handle_added_file_def)
  obtain res fs1 where mk: "mkdir_parents e fs (parent fp) = (res, fs1)"
    by (cases "mkdir_parents e fs (parent fp)")
  then have t1: "filter is_backup_event (trace fs1) = filter is_backup_event (trace fs)"
    by (auto simp: mkdir_parents_def split: option.splits prod.splits bool.splits)
  show ?thesis
  proof (cases "ex \<or> dry_run")
    case True
    with h ex show ?thesis by (auto simp: handle_added_file_def split: if_splits)
  next
    case False
    show ?thesis
    proof (cases res)
      case (Inl m)
      with h ex mk False t1 show ?thesis by (auto simp: handle_added_file_def)
    next
      case (Inr u)
      show ?thesis
      proof (cases "write_text e fs1 fp (added_content pf)")
        case (Inl m)
        with h ex mk False t1 Inr show ?thesis by (auto simp: handle_added_file_def)
      next
        case wr: (Inr fs2)
        from write_text_Inr[OF wr] have "filter is_backup_event (trace fs2) = filter is_backup_event (trace fs1)"
          by auto
        with h ex mk False t1 Inr wr show ?thesis by (auto simp: handle_added_file_def)
      qed
    qed
  qed
qed

subsection \<open>The outcome of one file, in both modes\<close>

lemma added_outcome:
  "(success (fst (apply_single_file_patch e fs pf d dry)) \<longleftrightarrow>
      checks_pass e fs pf (resolve_file_path (path pf) d) \<and>
      (\<not> dry \<longrightarrow> skipped_calls_return e fs pf (resolve_file_path (path pf) d))) \<and>
   (\<not> success (fst (apply_single_file_patch e fs pf d dry)) \<longrightarrow>
      error (fst (apply_single_file_patch e fs pf d dry)) \<noteq> None) \<and>
   (\<not> success (fst (apply_single_file_patch e fs pf d True)) \<longrightarrow>
      apply_single_file_patch e fs pf d False = apply_single_file_patch e fs pf d True) \<and>
   (success (fst (apply_single_file_patch e fs pf d False)) \<longrightarrow>
      lines_added (fst (apply_single_file_patch e fs pf d False))
        = lines_added (fst (apply_single_file_patch e fs pf d True)) \<and>
      lines_removed (fst (apply_single_file_patch e fs pf d False))
        = lines_removed (fst (apply_single_file_patch e fs pf d True)) \<and>
      hunks_applied (fst (apply_single_file_patch e fs pf d False))
        = hunks_applied (fst (apply_single_file_patch e fs pf d True)))"
  if a: "is_added_file pf"
proof -
  let ?fp = "resolve_file_path (path pf) d"
  obtain res fs1 where mk: "mkdir_parents e fs (parent ?fp) = (res, fs1)"
    by (cases "mkdir_parents e fs (parent ?fp)")
  show ?thesis
  proof (cases "exists_path e fs ?fp")
    case (Inl exc)
    with a show ?thesis
      by (simp add: apply_single_file_patch_def handle_added_file_def checks_pass_def
            mk_PatchResult_def)
  next
    case (Inr ex)
    show ?thesis
    proof (cases res)
      case (Inl m)
      with a Inr mk show ?thesis
        by (cases ex; cases dry)
           (simp_all add: apply_single_file_patch_def handle_added_file_def checks_pass_def
              skipped_calls_return_def mk_PatchResult_def)
    next
      case u: (Inr u)
      with a Inr mk show ?thesis
        by (cases ex; cases dry; cases "write_text e fs1 ?fp (added_content pf)")
           (simp_all add: apply_single_file_patch_def handle_added_file_def checks_pass_def
              skipped_calls_return_def mk_PatchResult_def)
    qed
  qed
qed

lemma removed_outcome:
  "(success (fst (apply_single_file_patch e fs pf d dry)) \<longleftrightarrow>
      checks_pass e fs pf (resolve_file_path (path pf) d) \<and>
      (\<not> dry \<longrightarrow> skipped_calls_return e fs pf (resolve_file_path (path pf) d))) \<and>
   (\<not> success (fst (apply_single_file_patch e fs pf d dry)) \<longrightarrow>
      error (fst (apply_single_file_patch e fs pf d dry)) \<noteq> None) \<and>
   (\<not> success (fst (apply_single_file_patch e fs pf d True)) \<longrightarrow>
      apply_single_file_patch e fs pf d False = apply_single_file_patch e fs pf d True) \<and>
   (success (fst (apply_single_file_patch e fs pf d False)) \<longrightarrow>
      lines_added (fst (apply_single_file_patch e fs pf d False))
        = lines_added (fst (apply_single_file_patch e fs pf d True)) \<and>
      lines_removed (fst (apply_single_file_patch e fs pf d False))
        = lines_removed (fst (apply_single_file_patch e fs pf d True)) \<and>
      hunks_applied (fst (apply_single_file_patch e fs pf d False))
        = hunks_applied (fst (apply_single_file_patch e fs pf d True)))"
  if a: "\<not> is_added_file pf" "is_removed_file pf"
proof -
  let ?fp = "resolve_file_path (path pf) d"
  obtain res fs1 where cb: "create_backup e fs ?fp = (res, fs1)"
    by (cases "create_backup e fs ?fp")
  show ?thesis
  proof (cases "exists_path e fs ?fp")
    case (Inl exc)
    with a show ?thesis
      by (simp add: apply_single_file_patch_def handle_removed_file_def checks_pass_def
            mk_PatchResult_def)
  next
    case (Inr ex)
    show ?thesis
    proof (cases res)
      case (Inl m)
      with a Inr cb show ?thesis
        by (cases ex; cases dry)
           (simp_all add: apply_single_file_patch_def handle_removed_file_def checks_pass_def
              skipped_calls_return_def mk_PatchResult_def)
    next
      case bp: (Inr bp)
      with a Inr cb show ?thesis
        by (cases ex; cases dry; cases "unlink e fs1 ?fp")
           (simp_all add: apply_single_file_patch_def handle_removed_file_def checks_pass_def
              skipped_calls_return_def mk_PatchResult_def)
    qed
  qed
qed

lemma modified_outcome:
  "(success (fst (apply_single_file_patch e fs pf d dry)) \<longleftrightarrow>
      checks_pass e fs pf (resolve_file_path (path pf) d) \<and>
      (\<not> dry \<longrightarrow> skipped_calls_return e fs pf (resolve_file_path (path pf) d))) \<and>
   (\<not> success (fst (apply_single_file_patch e fs pf d dry)) \<longrightarrow>
      error (fst (apply_single_file_patch e fs pf d dry)) \<noteq> None) \<and>
   (\<not> success (fst (apply_single_file_patch e fs pf d True)) \<longrightarrow>
      apply_single_file_patch e fs pf d False = apply_single_file_patch e fs pf d True) \<and>
   (success (fst (apply_single_file_patch e fs pf d False)) \<longrightarrow>
      lines_added (fst (apply_single_file_patch e fs pf d False))
        = lines_added (fst (apply_single_file_patch e fs pf d True)) \<and>
      lines_removed (fst (apply_single_file_patch e fs pf d False))
        = lines_removed (fst (apply_single_file_patch e fs pf d True)) \<and>
      hunks_applied (fst (apply_single_file_patch e fs pf d False))
        = hunks_applied (fst (apply_single_file_patch e fs pf d True)))"
  if a: "\<not> is_added_file pf" "\<not> is_removed_file pf"
proof -
  let ?fp = "resolve_file_path (path pf) d"
  obtain res fs1 where cb: "create_backup e fs ?fp = (res, fs1)"
    by (cases "create_backup e fs ?fp")
  show ?thesis
  proof (cases "exists_path e fs ?fp")
    case (Inl exc)
    with a show ?thesis
      by (simp add: apply_single_file_patch_def handle_modified_file_def checks_pass_def
            mk_PatchResult_def)
  next
    case (Inr ex)
    show ?thesis
    proof (cases "read_text e fs ?fp")
      case (Inl m)
      with a Inr show ?thesis
        by (cases ex; cases dry)
           (simp_all add: apply_single_file_patch_def handle_modified_file_def checks_pass_def
              mk_PatchResult_def)
    next
      case rd: (Inr original)
      show ?thesis
      proof (cases res)
        case (Inl m)
        with a Inr rd cb show ?thesis
          by (cases ex; cases dry)
             (simp_all add: apply_single_file_patch_def handle_modified_file_def checks_pass_def
                skipped_calls_return_def mk_PatchResult_def Let_def)
      next
        case bp: (Inr bp)
        with a Inr rd cb show ?thesis
          by (cases ex; cases dry;
              cases "write_text e fs1 ?fp
                       (concat (apply_hunks_to_content (splitlines_keepends original) pf))")
             (simp_all add: apply_single_file_patch_def handle_modified_file_def checks_pass_def
                skipped_calls_return_def mk_PatchResult_def Let_def)
      qed
    qed
  qed
qed

lemma file_outcome:
  "(success (fst (apply_single_file_patch e fs pf d dry)) \<longleftrightarrow>
      checks_pass e fs pf (resolve_file_path (path pf) d) \<and>
      (\<not> dry \<longrightarrow> skipped_calls_return e fs pf (resolve_file_path (path pf) d))) \<and>
   (\<not> success (fst (apply_single_file_patch e fs pf d dry)) \<longrightarrow>
      error (fst (apply_single_file_patch e fs pf d dry)) \<noteq> None) \<and>
   (\<not> success (fst (apply_single_file_patch e fs pf d True)) \<longrightarrow>
      apply_single_file_patch e fs pf d False = apply_single_file_patch e fs pf d True) \<and>
   (success (fst (apply_single_file_patch e fs pf d False)) \<longrightarrow>
      lines_added (fst (apply_single_file_patch e fs pf d False))
        = lines_added (fst (apply_single_file_patch e fs pf d True)) \<and>
      lines_removed (fst (apply_single_file_patch e fs pf d False))
        = lines_removed (fst (apply_single_file_patch e fs pf d True)) \<and>
      hunks_applied (fst (apply_single_file_patch e fs pf d False))
        = hunks_applied (fst (apply_single_file_patch e fs pf d True)))"
  using added_outcome[of pf e fs d dry] removed_outcome[of pf e fs d dry]
    modified_outcome[of pf e fs d dry]
  by (cases "is_added_file pf"; cases "is_removed_file pf") blast+

lemma apply_single_file_patch_dry: "snd (apply_single_file_patch e fs pf d True) = fs"
  by (simp add: apply_single_file_patch_def handle_added_file_def handle_removed_file_def
        handle_modified_file_def Let_def split: sum.splits)

subsection \<open>A dry run changes nothing\<close>

lemma apply_patchset_dry: "snd (apply_patchset e d True pfs (acc, fs)) = fs"
proof (induction pfs arbitrary: acc)
  case Nil
  then show ?case by simp
next
  case (Cons pf pfs)
  obtain r fs' where s: "apply_single_file_patch e fs pf d True = (r, fs')"
    by (cases "apply_single_file_patch e fs pf d True")
  with apply_single_file_patch_dry[of e fs pf d] have "fs' = fs" by simp
  with s Cons show ?case by simp
qed

lemma apply_patches_loop_dry: "snd (apply_patches_loop e d True i ps (acc, fs)) = fs"
proof (induction ps arbitrary: i acc)
  case Nil
  then show ?case by simp
next
  case (Cons p ps)
  show ?case
  proof (cases "parse_patch e p")
    case (Inl msg)
    then show ?thesis using Cons by simp
  next
    case (Inr patchset)
    obtain acc1 fs1 where s: "apply_patchset e d True patchset (acc, fs) = (acc1, fs1)"
      by (cases "apply_patchset e d True patchset (acc, fs)")
    with apply_patchset_dry[of e d patchset acc fs] have "fs1 = fs" by simp
    with s Inr Cons show ?thesis by simp
  qed
qed

lemma ex_parse:
  "parse_patch ex_env ex_add_diff = Inr [ex_add]"
  "parse_patch ex_env ex_short_diff = Inl ''Failed to parse patch: Hunk is shorter than expected''"
  "parse_patch ex_env ''garbage'' = Inl ''Failed to parse patch: Empty or invalid patch content''"
  by (simp_all add: parse_patch_def ex_env_def ex_PatchSet_def ex_add_diff_def ex_short_diff_def)

lemma ex_add_path: "resolve_file_path (path ex_add) ex_root = ex_new_file"
  by (simp add: path_defs ex_defs)

lemma ex_add_real:
  "apply_single_file_patch ex_env ex_fs ex_add ex_root False =
     ((mk_PatchResult True ''/repo/new.py'')\<lparr>lines_added := 2, hunks_applied := 1\<rparr>,
      ex_fs\<lparr>files := (files ex_fs)([''repo'', ''new.py''] \<mapsto> ''x = 1\<newline>y = 2\<newline>''),
             trace := [MadeDir ex_root, Wrote ex_new_file ''x = 1\<newline>y = 2\<newline>'']\<rparr>)"
  by (simp add: apply_single_file_patch_def ex_add_path handle_added_file_def)
     (simp add: fs_defs path_defs ex_defs added_def added_content_def is_added_def
        rstrip_nl_def endswith_nl_def insert_absorb)

lemma ex_add_dry:
  "apply_single_file_patch ex_env ex_fs ex_add ex_root True =
     ((mk_PatchResult True ''/repo/new.py'')\<lparr>lines_added := 2, hunks_applied := 1\<rparr>, ex_fs)"
  by (simp add: apply_single_file_patch_def ex_add_path handle_added_file_def)
     (simp add: fs_defs path_defs ex_defs added_def is_added_def)

lemma ex_add_again:
  "apply_single_file_patch ex_env
     (ex_fs\<lparr>files := (files ex_fs)([''repo'', ''new.py''] \<mapsto> ''x = 1\<newline>y = 2\<newline>''),
            trace := [MadeDir ex_root, Wrote ex_new_file ''x = 1\<newline>y = 2\<newline>'']\<rparr>)
     ex_add ex_root False =
     ((mk_PatchResult False ''/repo/new.py'')\<lparr>error := Some ''Cannot add file that already exists''\<rparr>,
      ex_fs\<lparr>files := (files ex_fs)([''repo'', ''new.py''] \<mapsto> ''x = 1\<newline>y = 2\<newline>''),
            trace := [MadeDir ex_root, Wrote ex_new_file ''x = 1\<newline>y = 2\<newline>'']\<rparr>)"
  by (simp add: apply_single_file_patch_def ex_add_path handle_added_file_def)
     (simp add: fs_defs path_defs ex_defs)

subsection \<open>The loops over the files and over the diff texts\<close>








subsection \<open>Hunks as list surgery\<close>

lemma old_lines_filter:
  "old_lines h = map line_value (filter (\<lambda>l. line_type l \<noteq> Added) (hunk_lines h))"
proof -
  have "fst (split_hunk_lines ls) = map line_value (filter (\<lambda>l. line_type l \<noteq> Added) ls)" for ls
    by (induction ls) (auto simp: is_added_def is_removed_def split: prod.splits)
  then show ?thesis by (simp add: old_lines_def)
qed

lemma new_lines_filter:
  "new_lines h = map line_value (filter (\<lambda>l. line_type l \<noteq> Removed) (hunk_lines h))"
proof -
  have "snd (split_hunk_lines ls) = map line_value (filter (\<lambda>l. line_type l \<noteq> Removed) ls)" for ls
    by (induction ls) (auto simp: is_added_def is_removed_def split: prod.splits)
  then show ?thesis by (simp add: new_lines_def)
qed

lemma old_count_filter:
  "old_count h = int (length (filter (\<lambda>l. line_type l \<noteq> Added) (hunk_lines h)))"
  by (simp add: old_count_def is_added_def)

lemma slice_to_nonneg: "0 \<le> i \<Longrightarrow> slice_to xs i = take (nat i) xs"
  by (auto simp: slice_to_def slice_bound_def)

lemma slice_from_nonneg: "0 \<le> i \<Longrightarrow> slice_from xs i = drop (nat i) xs"
  by (auto simp: slice_from_def slice_bound_def)

lemma apply_single_hunk_splice:
  assumes "1 \<le> target_start h"
  shows "apply_single_hunk buf h =
           take (nat (target_start h - 1)) buf
           @ map line_value (filter (\<lambda>l. line_type l \<noteq> Removed) (hunk_lines h))
           @ drop (nat (target_start h - 1)
                   + length (filter (\<lambda>l. line_type l \<noteq> Added) (hunk_lines h))) buf"
proof -
  have "0 \<le> target_start h - 1" using assms by simp
  moreover have "0 \<le> target_start h - 1 + old_count h"
    using assms by (simp add: old_count_def)
  moreover have "nat (target_start h - 1 + old_count h)
      = nat (target_start h - 1) + length (filter (\<lambda>l. line_type l \<noteq> Added) (hunk_lines h))"
    using assms by (simp add: old_count_filter nat_add_distrib)
  ultimately show ?thesis
    by (simp add: apply_single_hunk_def Let_def slice_to_nonneg slice_from_nonneg new_lines_filter)
qed



lemma splitlines_keepends_nonempty: "s \<noteq> [] \<Longrightarrow> splitlines_keepends s \<noteq> []"
  by (induction s rule: splitlines_keepends.induct) (auto split: list.splits)

lemma concat_splitlines_keepends: "concat (splitlines_keepends s) = s"
  by (induction s rule: splitlines_keepends.induct)
     (auto split: list.splits simp: splitlines_keepends_nonempty)

lemma single_hunk_round_trip:
  assumes "describes A [h] B" and "hunks pf = [h]"
  shows "apply_hunks_to_content A pf = B"
proof -
  define k where "k = nat (source_start h - 1)"
  from assms(1) have s: "1 \<le> source_start h" and t: "target_start h = source_start h"
    and pre: "take k A = take k B"
    and new: "take (length (new_lines h)) (drop k B) = new_lines h"
    and post: "drop (k + length (old_lines h)) A = drop (k + length (new_lines h)) B"
    by (simp_all add: describes_def Let_def k_def)
  have len: "length (filter (\<lambda>l. line_type l \<noteq> Added) (hunk_lines h)) = length (old_lines h)"
    by (simp add: old_lines_filter)
  have "apply_hunks_to_content A pf = take k A @ new_lines h @ drop (k + length (old_lines h)) A"
    using s t assms(2)
    by (simp add: apply_hunks_to_content_def apply_single_hunk_splice k_def len new_lines_filter)
  also have "\<dots> = take k B @ take (length (new_lines h)) (drop k B)
                    @ drop (k + length (new_lines h)) B"
    using pre new post by simp
  also have "\<dots> = B"
    by (metis append_take_drop_id drop_drop add.commute)
  finally show ?thesis .
qed

lemma exists_path_True:
  "exists_path e fs fp = Inr True \<Longrightarrow>
     \<exists>l. locate e fs fp = Some l \<and> (l \<in> dirs fs \<or> files fs l \<noteq> None)"
  by (auto simp: exists_path_def split: option.splits)

subsection \<open>The examples, run\<close>

lemma ex_backup_made':
  "create_backup ex_env ex_fs ex_file = (Inr ex_backup_path, ex_backed_up)"
  by (simp add: ex_backup_made ex_backed_up_def ex_backup_dir_def ex_backup_path_def)

lemma ex_backup_denied:
  "create_backup ex_env_denied ex_fs ex_file =
     (Inl ''[Errno 13] Permission denied'',
      ex_fs\<lparr>dirs := insert [''repo'', ''.qualityforge_backups''] (dirs ex_fs),
             clock := 1, trace := [MadeDir ex_backup_dir]\<rparr>)"
  by (simp add: fs_defs path_defs ex_defs ex_backup_dir_def)

lemma ex_exists_denied: "exists_path ex_env_denied ex_fs ex_file = Inr True"
  by (simp add: exists_path_def locate_def ex_defs)

lemma ex_read_denied: "read_text ex_env_denied ex_fs ex_file = Inr ''a\<newline>b\<newline>''"
  by (simp add: read_text_def locate_def ex_defs)

lemma ex_modify_denied:
  "handle_modified_file ex_env_denied ex_fs ex_stale ex_file False =
     Inr ((mk_PatchResult False ''/repo/f.py'')
            \<lparr>error := Some ''Failed to apply patch: [Errno 13] Permission denied''\<rparr>,
          ex_fs\<lparr>dirs := insert [''repo'', ''.qualityforge_backups''] (dirs ex_fs),
                 clock := 1, trace := [MadeDir ex_backup_dir]\<rparr>)"
  by (simp add: handle_modified_file_def ex_exists_denied ex_read_denied ex_backup_denied)
     (simp add: str_path_def ex_file_def)

lemma ex_remove_denied:
  "handle_removed_file ex_env_denied ex_fs ex_remove ex_file False =
     Inr ((mk_PatchResult False ''/repo/f.py'')
            \<lparr>error := Some ''Failed to remove file: [Errno 13] Permission denied''\<rparr>,
          ex_fs\<lparr>dirs := insert [''repo'', ''.qualityforge_backups''] (dirs ex_fs),
                 clock := 1, trace := [MadeDir ex_backup_dir]\<rparr>)"
  by (simp add: handle_removed_file_def ex_exists_denied ex_backup_denied)
     (simp add: str_path_def ex_file_def)

lemma ex_modify_real:
  "handle_modified_file ex_env ex_fs ex_stale ex_file False =
     Inr ((mk_PatchResult True ''/repo/f.py'')
            \<lparr>lines_added := 1, lines_removed := 1, hunks_applied := 1,
              backup_path := Some ''/repo/.qualityforge_backups/f.py.20240101_120000.backup''\<rparr>,
          ex_backed_up\<lparr>files := (files ex_backed_up)([''repo'', ''f.py''] \<mapsto> ''y\<newline>b\<newline>''),
                       trace := trace ex_backed_up @ [Wrote ex_file ''y\<newline>b\<newline>'']\<rparr>)"
  by (simp add: handle_modified_file_def ex_exists ex_read ex_backup_made')
     (simp add: write_text_def locate_def mk_PatchResult_def ex_defs hunk_defs is_linebreak_def
        ex_backed_up_def ex_backup_path_def str_path_def added_def removed_def)

lemma ex_remove_real:
  "handle_removed_file ex_env ex_fs ex_remove ex_file False =
     Inr ((mk_PatchResult True ''/repo/f.py'')
            \<lparr>lines_removed := 1, hunks_applied := 1,
              backup_path := Some ''/repo/.qualityforge_backups/f.py.20240101_120000.backup''\<rparr>,
          ex_backed_up\<lparr>files := (files ex_backed_up)([''repo'', ''f.py''] := None),
                       trace := trace ex_backed_up @ [Unlinked ex_file]\<rparr>)"
  by (simp add: handle_removed_file_def ex_exists ex_backup_made')
     (simp add: unlink_def locate_def mk_PatchResult_def ex_defs is_removed_def
        ex_backed_up_def ex_backup_path_def str_path_def removed_def)

lemma ex_add_real': "apply_single_file_patch ex_env ex_fs ex_add ex_root False =
     ((mk_PatchResult True ''/repo/new.py'')\<lparr>lines_added := 2, hunks_applied := 1\<rparr>, ex_added)"
  by (simp add: ex_add_real ex_added_def)


lemma ex_add_again_dry:
  "apply_single_file_patch ex_env ex_added ex_add ex_root True =
     ((mk_PatchResult False ''/repo/new.py'')\<lparr>error := Some ''Cannot add file that already exists''\<rparr>,
      ex_added)"
  by (simp add: apply_single_file_patch_def ex_add_path handle_added_file_def)
     (simp add: fs_defs path_defs ex_defs ex_added_def)




lemma ex_unlink: "unlink ex_env ex_backed_up ex_file = Inr ex_removed"
  by (simp add: unlink_def locate_def ex_defs ex_backed_up_def ex_removed_def)




lemma ex_crlf_backup_made:
  "create_backup ex_env ex_fs ex_crlf_file
     = (Inr (PosixPath True ex_crlf_backup), ex_crlf_backed_up)"
  by (simp add: fs_defs path_defs ex_defs ex_timestamp ex_crlf_backup_def ex_crlf_backed_up_def
        ex_backup_dir_def)

lemma ex_far_applied:
  "concat (apply_hunks_to_content (splitlines_keepends ''a\<newline>b\<newline>'') ex_far) = ''a\<newline>b\<newline>z\<newline>''"
  by (simp add: ex_far_def ex_far_hunk_def hunk_defs is_linebreak_def)

lemma ex_crlf_write:
  "write_text ex_env ex_crlf_backed_up ex_crlf_file ''a\<newline>b\<newline>z\<newline>'' = Inr ex_appended"
  by (simp add: write_text_def locate_def ex_defs ex_crlf_backed_up_def ex_appended_def)

lemma ex_crlf_exists: "exists_path ex_env ex_fs ex_crlf_file = Inr True"
  by (simp add: exists_path_def locate_def ex_defs)

section \<open>The properties of the specification\<close>

subsection \<open>Hunk verification (C1)\<close>

text \<open>
  C1. A Modify whose hunk does not match the file at its target position should fail with
  a hunk mismatch and leave the file as it was. The code computes the segment to check
  and never compares it: on \<^verbatim>\<open>f.py\<close> with the lines \<^verbatim>\<open>a\<close>, \<^verbatim>\<open>b\<close>, a hunk that removes a first
  line \<^verbatim>\<open>x\<close> and adds \<^verbatim>\<open>y\<close> is applied with success, and the file is rewritten to \<^verbatim>\<open>y\<close>, \<^verbatim>\<open>b\<close>.
\<close>

theorem stale_hunk_is_applied:
  "locate ex_env ex_fs ex_file = Some [''repo'', ''f.py''] \<and>
   files ex_fs [''repo'', ''f.py''] = Some ''a\<newline>b\<newline>'' \<and>
   old_lines ex_stale_hunk = [''x\<newline>''] \<and>
   \<not> isl (handle_modified_file ex_env ex_fs ex_stale ex_file False) \<and>
   success (fst (projr (handle_modified_file ex_env ex_fs ex_stale ex_file False))) \<and>
   files (snd (projr (handle_modified_file ex_env ex_fs ex_stale ex_file False)))
     [''repo'', ''f.py''] = Some ''y\<newline>b\<newline>''"
  by (simp add: handle_modified_file_def ex_exists ex_read ex_backup_made)
     (simp add: write_text_def locate_def mk_PatchResult_def ex_defs hunk_defs is_linebreak_def)

subsection \<open>Round trip (C2)\<close>

text \<open>
  C2. Applying a diff that describes the change of \<open>A\<close> into \<open>B\<close> to \<open>A\<close> should give \<open>B\<close>.
  The code places every hunk at its position in the new file while it works backwards
  through the old one, so a hunk that follows a hunk changing the number of lines lands
  on the wrong lines: for the two hunks between \<open>ex_A\<close> and \<open>ex_B\<close> the result keeps the
  deleted \<^verbatim>\<open>j\<close> and loses \<^verbatim>\<open>h\<close>. (For one hunk that \<open>describes\<close> the change the round
  trip holds, \<open>single_hunk_round_trip\<close>.)
\<close>

theorem round_trip_fails_on_two_hunks:
  "describes ex_A (hunks ex_two_hunks) ex_B \<and>
   apply_hunks_to_content ex_A ex_two_hunks
     = [''b\<newline>'', ''c\<newline>'', ''d\<newline>'', ''e\<newline>'',
        ''f\<newline>'', ''g\<newline>'', ''i\<newline>'', ''J\<newline>'', ''j\<newline>''] \<and>
   apply_hunks_to_content ex_A ex_two_hunks \<noteq> ex_B"
  by (simp add: describes_def ex_A_def ex_B_def ex_two_hunks_def hunk_defs)

subsection \<open>Backups (C3)\<close>

text \<open>
  C3. In a Modify or a Remove that is not a dry run and succeeds, the content that the
  file had before the call is stored exactly once, where \<^verbatim>\<open>copy2\<close> puts the backup path,
  and this happens immediately before the write or the deletion: afterwards the files are
  those before the call with the backup added and the target rewritten (or gone), and the
  log has grown by the creation of the backup directory, one copy of the old content, and
  the write (or the deletion), in this order. When \<^verbatim>\<open>_create_backup\<close> raises, the result
  is a failure and every file is as it was. An Add, in any mode, logs no copy.
\<close>

theorem backup_once_before_mutation:
  "(\<forall>msg fs1 r fs'. create_backup e fs fp = (Inl msg, fs1) \<longrightarrow>
       (handle_modified_file e fs pf fp False = Inr (r, fs') \<longrightarrow>
          \<not> success r \<and> files fs' = files fs) \<and>
       (handle_removed_file e fs pf fp False = Inr (r, fs') \<longrightarrow>
          \<not> success r \<and> files fs' = files fs))
   \<and> (\<forall>r fs'. handle_modified_file e fs pf fp False = Inr (r, fs') \<and> success r \<longrightarrow>
        (\<exists>l c b. locate e fs fp = Some l \<and> files fs l = Some c \<and>
           copy_target e fs' fp (backup_path_of fp (strftime (now e (clock fs)))) = Some b \<and>
           b \<noteq> l \<and> files fs' b = Some c \<and>
           files fs' = (files fs)(b \<mapsto> c,
             l \<mapsto> concat (apply_hunks_to_content
                            (splitlines_keepends (universal_newlines c)) pf)) \<and>
           trace fs' = trace fs @
             [MadeDir (backup_dir_of fp),
              Copied fp (backup_path_of fp (strftime (now e (clock fs)))) c,
              Wrote fp (concat (apply_hunks_to_content
                                  (splitlines_keepends (universal_newlines c)) pf))]))
   \<and> (\<forall>r fs'. handle_removed_file e fs pf fp False = Inr (r, fs') \<and> success r \<longrightarrow>
        (\<exists>l c b. locate e fs' fp = Some l \<and> files fs l = Some c \<and>
           copy_target e fs' fp (backup_path_of fp (strftime (now e (clock fs)))) = Some b \<and>
           b \<noteq> l \<and> files fs' b = Some c \<and>
           files fs' = (files fs)(b \<mapsto> c, l := None) \<and>
           trace fs' = trace fs @
             [MadeDir (backup_dir_of fp),
              Copied fp (backup_path_of fp (strftime (now e (clock fs)))) c,
              Unlinked fp]))
   \<and> (\<forall>r fs'. handle_added_file e fs pf fp dry_run = Inr (r, fs') \<longrightarrow>
        filter is_backup_event (trace fs') = filter is_backup_event (trace fs))"
proof (intro conjI allI impI)
  fix msg fs1 r fs'
  assume "create_backup e fs fp = (Inl msg, fs1)"
    and "handle_modified_file e fs pf fp False = Inr (r, fs')"
  then show "\<not> success r" and "files fs' = files fs"
    using handle_modified_file_backup_fails by blast+
next
  fix msg fs1 r fs'
  assume "create_backup e fs fp = (Inl msg, fs1)"
    and "handle_removed_file e fs pf fp False = Inr (r, fs')"
  then show "\<not> success r" and "files fs' = files fs"
    using handle_removed_file_backup_fails by blast+
next
  fix r fs'
  assume "handle_modified_file e fs pf fp False = Inr (r, fs') \<and> success r"
  then have h: "handle_modified_file e fs pf fp False = Inr (r, fs')" and s: "success r"
    by simp_all
  from modified_file_effect[OF h s] show "\<exists>l c b. locate e fs fp = Some l \<and> files fs l = Some c \<and>
           copy_target e fs' fp (backup_path_of fp (strftime (now e (clock fs)))) = Some b \<and>
           b \<noteq> l \<and> files fs' b = Some c \<and>
           files fs' = (files fs)(b \<mapsto> c,
             l \<mapsto> concat (apply_hunks_to_content
                            (splitlines_keepends (universal_newlines c)) pf)) \<and>
           trace fs' = trace fs @
             [MadeDir (backup_dir_of fp),
              Copied fp (backup_path_of fp (strftime (now e (clock fs)))) c,
              Wrote fp (concat (apply_hunks_to_content
                                  (splitlines_keepends (universal_newlines c)) pf))]"
    by (elim exE conjE) (intro exI conjI, assumption+, simp, assumption+)
next
  fix r fs'
  assume "handle_removed_file e fs pf fp False = Inr (r, fs') \<and> success r"
  then have h: "handle_removed_file e fs pf fp False = Inr (r, fs')" and s: "success r"
    by simp_all
  from removed_file_effect[OF h s] show "\<exists>l c b. locate e fs' fp = Some l \<and> files fs l = Some c \<and>
           copy_target e fs' fp (backup_path_of fp (strftime (now e (clock fs)))) = Some b \<and>
           b \<noteq> l \<and> files fs' b = Some c \<and>
           files fs' = (files fs)(b \<mapsto> c, l := None) \<and>
           trace fs' = trace fs @
             [MadeDir (backup_dir_of fp),
              Copied fp (backup_path_of fp (strftime (now e (clock fs)))) c,
              Unlinked fp]"
    by (elim exE conjE) (intro exI conjI, assumption+, simp, assumption+)
next
  fix r fs'
  assume "handle_added_file e fs pf fp dry_run = Inr (r, fs')"
  then show "filter is_backup_event (trace fs') = filter is_backup_event (trace fs)"
    by (rule handle_added_file_no_backup)
qed

text \<open>
  On \<^verbatim>\<open>f.py\<close>: when copying is refused, Modify and Remove fail and the files are unchanged;
  otherwise both succeed, the backup holds \<^verbatim>\<open>a\<close>, \<^verbatim>\<open>b\<close>, and the file is rewritten, or gone.
\<close>

theorem backup_once_before_mutation_witness:
  "create_backup ex_env_denied ex_fs ex_file =
     (Inl ''[Errno 13] Permission denied'',
      ex_fs\<lparr>dirs := insert [''repo'', ''.qualityforge_backups''] (dirs ex_fs),
             clock := 1, trace := [MadeDir ex_backup_dir]\<rparr>) \<and>
   files (snd (projr (handle_modified_file ex_env_denied ex_fs ex_stale ex_file False)))
     = files ex_fs \<and>
   \<not> success (fst (projr (handle_modified_file ex_env_denied ex_fs ex_stale ex_file False))) \<and>
   files (snd (projr (handle_removed_file ex_env_denied ex_fs ex_remove ex_file False)))
     = files ex_fs \<and>
   \<not> success (fst (projr (handle_removed_file ex_env_denied ex_fs ex_remove ex_file False))) \<and>
   success (fst (projr (handle_modified_file ex_env ex_fs ex_stale ex_file False))) \<and>
   files (snd (projr (handle_modified_file ex_env ex_fs ex_stale ex_file False))) ex_backup
     = Some ''a\<newline>b\<newline>'' \<and>
   files (snd (projr (handle_modified_file ex_env ex_fs ex_stale ex_file False)))
     [''repo'', ''f.py''] = Some ''y\<newline>b\<newline>'' \<and>
   trace (snd (projr (handle_modified_file ex_env ex_fs ex_stale ex_file False)))
     = [MadeDir ex_backup_dir, Copied ex_file ex_backup_path ''a\<newline>b\<newline>'',
        Wrote ex_file ''y\<newline>b\<newline>''] \<and>
   success (fst (projr (handle_removed_file ex_env ex_fs ex_remove ex_file False))) \<and>
   files (snd (projr (handle_removed_file ex_env ex_fs ex_remove ex_file False))) ex_backup
     = Some ''a\<newline>b\<newline>'' \<and>
   files (snd (projr (handle_removed_file ex_env ex_fs ex_remove ex_file False)))
     [''repo'', ''f.py''] = None \<and>
   trace (snd (projr (handle_removed_file ex_env ex_fs ex_remove ex_file False)))
     = [MadeDir ex_backup_dir, Copied ex_file ex_backup_path ''a\<newline>b\<newline>'',
        Unlinked ex_file]"
proof -
  note d = backup_once_before_mutation[of ex_env_denied ex_fs ex_file ex_stale False]
  note d' = backup_once_before_mutation[of ex_env_denied ex_fs ex_file ex_remove False]
  note m = backup_once_before_mutation[of ex_env ex_fs ex_file ex_stale False]
  note r = backup_once_before_mutation[of ex_env ex_fs ex_file ex_remove False]
  have loc: "locate ex_env ex_fs ex_file = Some [''repo'', ''f.py'']"
    "files ex_fs [''repo'', ''f.py''] = Some ''a\<newline>b\<newline>''"
    by (simp_all add: locate_def ex_defs)
  have bp: "backup_path_of ex_file (strftime (now ex_env (clock ex_fs))) = ex_backup_path"
    "backup_dir_of ex_file = ex_backup_dir"
    by (simp add: ex_backup_path_of ex_backup_path_def)
       (simp add: ex_backup_dir_def path_defs ex_file_def)
  from d ex_backup_denied ex_modify_denied
  have 1: "\<not> success (fst (projr (handle_modified_file ex_env_denied ex_fs ex_stale ex_file False)))
      \<and> files (snd (projr (handle_modified_file ex_env_denied ex_fs ex_stale ex_file False)))
          = files ex_fs"
    by (metis fst_conv snd_conv sum.sel(2))
  from d' ex_backup_denied ex_remove_denied
  have 2: "\<not> success (fst (projr (handle_removed_file ex_env_denied ex_fs ex_remove ex_file False)))
      \<and> files (snd (projr (handle_removed_file ex_env_denied ex_fs ex_remove ex_file False)))
          = files ex_fs"
    by (metis fst_conv snd_conv sum.sel(2))
  have sm: "success (fst (projr (handle_modified_file ex_env ex_fs ex_stale ex_file False)))"
    "success (fst (projr (handle_removed_file ex_env ex_fs ex_remove ex_file False)))"
    by (simp_all add: ex_modify_real ex_remove_real mk_PatchResult_def)
  have ct: "copy_target ex_env
      (snd (projr (handle_modified_file ex_env ex_fs ex_stale ex_file False)))
      ex_file ex_backup_path = Some ex_backup"
    "copy_target ex_env
      (snd (projr (handle_removed_file ex_env ex_fs ex_remove ex_file False)))
      ex_file ex_backup_path = Some ex_backup"
    by (simp_all add: ex_modify_real ex_remove_real)
       (simp_all add: copy_target_def locate_def ex_backed_up_def ex_defs ex_backup_path_def)
  from m ex_modify_real sm(1) obtain l c b where
    em: "locate ex_env ex_fs ex_file = Some l" "files ex_fs l = Some c"
      "copy_target ex_env (snd (projr (handle_modified_file ex_env ex_fs ex_stale ex_file False)))
         ex_file (backup_path_of ex_file (strftime (now ex_env (clock ex_fs)))) = Some b"
      "files (snd (projr (handle_modified_file ex_env ex_fs ex_stale ex_file False))) b = Some c"
      "files (snd (projr (handle_modified_file ex_env ex_fs ex_stale ex_file False)))
         = (files ex_fs)(b \<mapsto> c,
             l \<mapsto> concat (apply_hunks_to_content
                            (splitlines_keepends (universal_newlines c)) ex_stale))"
      "trace (snd (projr (handle_modified_file ex_env ex_fs ex_stale ex_file False)))
         = trace ex_fs @
             [MadeDir (backup_dir_of ex_file),
              Copied ex_file (backup_path_of ex_file (strftime (now ex_env (clock ex_fs)))) c,
              Wrote ex_file (concat (apply_hunks_to_content
                                  (splitlines_keepends (universal_newlines c)) ex_stale))]"
    by (metis fst_conv snd_conv sum.sel(2))
  from em(1,2) loc have lc: "l = [''repo'', ''f.py'']" "c = ''a\<newline>b\<newline>''" by simp_all
  from em(3) ct(1) bp have b: "b = ex_backup" by simp
  have new: "concat (apply_hunks_to_content
      (splitlines_keepends (universal_newlines ''a\<newline>b\<newline>'')) ex_stale) = ''y\<newline>b\<newline>''"
    by (simp add: ex_stale_def ex_stale_hunk_def hunk_defs is_linebreak_def)
  note em' = em(4,5,6)[unfolded lc b bp new]
  from em' have 3:
    "files (snd (projr (handle_modified_file ex_env ex_fs ex_stale ex_file False))) ex_backup
       = Some ''a\<newline>b\<newline>''"
    "files (snd (projr (handle_modified_file ex_env ex_fs ex_stale ex_file False)))
       [''repo'', ''f.py''] = Some ''y\<newline>b\<newline>''"
    "trace (snd (projr (handle_modified_file ex_env ex_fs ex_stale ex_file False)))
       = [MadeDir ex_backup_dir, Copied ex_file ex_backup_path ''a\<newline>b\<newline>'',
          Wrote ex_file ''y\<newline>b\<newline>'']"
    by (simp_all add: ex_fs_def ex_backup_def)
  from r ex_remove_real sm(2) obtain l' c' b' where
    er: "locate ex_env (snd (projr (handle_removed_file ex_env ex_fs ex_remove ex_file False)))
           ex_file = Some l'" "files ex_fs l' = Some c'"
      "copy_target ex_env (snd (projr (handle_removed_file ex_env ex_fs ex_remove ex_file False)))
         ex_file (backup_path_of ex_file (strftime (now ex_env (clock ex_fs)))) = Some b'"
      "files (snd (projr (handle_removed_file ex_env ex_fs ex_remove ex_file False))) b' = Some c'"
      "files (snd (projr (handle_removed_file ex_env ex_fs ex_remove ex_file False)))
         = (files ex_fs)(b' \<mapsto> c', l' := None)"
      "trace (snd (projr (handle_removed_file ex_env ex_fs ex_remove ex_file False)))
         = trace ex_fs @
             [MadeDir (backup_dir_of ex_file),
              Copied ex_file (backup_path_of ex_file (strftime (now ex_env (clock ex_fs)))) c',
              Unlinked ex_file]"
    by (metis fst_conv snd_conv sum.sel(2))
  have "locate ex_env (snd (projr (handle_removed_file ex_env ex_fs ex_remove ex_file False)))
           ex_file = Some [''repo'', ''f.py'']"
    by (simp add: ex_remove_real) (simp add: locate_def ex_backed_up_def ex_defs)
  with er(1,2) loc have lc': "l' = [''repo'', ''f.py'']" "c' = ''a\<newline>b\<newline>''" by simp_all
  from er(3) ct(2) bp have b': "b' = ex_backup" by simp
  note er' = er(4,5,6)[unfolded lc' b' bp]
  from er' have 4:
    "files (snd (projr (handle_removed_file ex_env ex_fs ex_remove ex_file False))) ex_backup
       = Some ''a\<newline>b\<newline>''"
    "files (snd (projr (handle_removed_file ex_env ex_fs ex_remove ex_file False)))
       [''repo'', ''f.py''] = None"
    "trace (snd (projr (handle_removed_file ex_env ex_fs ex_remove ex_file False)))
       = [MadeDir ex_backup_dir, Copied ex_file ex_backup_path ''a\<newline>b\<newline>'',
          Unlinked ex_file]"
    by (simp_all add: ex_fs_def ex_backup_def)
  from ex_backup_denied 1 2 sm 3 4 show ?thesis by blast
qed

subsection \<open>Dry runs (C4)\<close>

text \<open>
  C4, as stated: the counts of a dry run are those that a run on the same input reports
  afterwards. The dry run examines every file on the unchanged file system: for a batch
  that adds \<^verbatim>\<open>new.py\<close> twice it reports two added lines both times, while the real run
  reports them for the first addition only, the second being refused.
\<close>

theorem dry_run_counts_differ_on_repeated_add:
  "map lines_added
     (results (fst (apply_patches ex_env ex_fs [ex_add_diff, ex_add_diff] ex_root True)))
     = [2, 2] \<and>
   map lines_added
     (results (fst (apply_patches ex_env ex_fs [ex_add_diff, ex_add_diff] ex_root False)))
     = [2, 0]"
  by (simp add: apply_patches_def no_results_def ex_parse ex_add_real ex_add_dry ex_add_again
        record_result_def mk_PatchResult_def)

text \<open>
  C4, amended. A dry run returns the state it was given: no file, no directory and no
  log entry changes. For one file of a diff on one state, the dry run succeeds exactly
  when the checks made in both modes pass, and the real run succeeds exactly when the dry
  run succeeds and the calls that only the real run makes (making the directories and
  writing for an Add, the backup and the deletion for a Remove, the backup and the writing
  for a Modify) all return. A dry run that fails is a real run that fails, with the same
  result and the same state. So both modes report the same success, lines added, lines
  removed and hunks applied, unless the dry run succeeds and one of those calls raises.
\<close>

theorem dry_run_purity:
  "snd (apply_patches e fs patches target_dir True) = fs \<and>
   (success (fst (apply_single_file_patch e fs pf target_dir True)) \<longleftrightarrow>
      checks_pass e fs pf (resolve_file_path (path pf) target_dir)) \<and>
   (success (fst (apply_single_file_patch e fs pf target_dir False)) \<longleftrightarrow>
      success (fst (apply_single_file_patch e fs pf target_dir True)) \<and>
      skipped_calls_return e fs pf (resolve_file_path (path pf) target_dir)) \<and>
   (\<not> success (fst (apply_single_file_patch e fs pf target_dir True)) \<longrightarrow>
      apply_single_file_patch e fs pf target_dir False
        = apply_single_file_patch e fs pf target_dir True) \<and>
   ((success (fst (apply_single_file_patch e fs pf target_dir True)) \<longrightarrow>
       success (fst (apply_single_file_patch e fs pf target_dir False))) \<longrightarrow>
    success (fst (apply_single_file_patch e fs pf target_dir True))
      = success (fst (apply_single_file_patch e fs pf target_dir False)) \<and>
    lines_added (fst (apply_single_file_patch e fs pf target_dir True))
      = lines_added (fst (apply_single_file_patch e fs pf target_dir False)) \<and>
    lines_removed (fst (apply_single_file_patch e fs pf target_dir True))
      = lines_removed (fst (apply_single_file_patch e fs pf target_dir False)) \<and>
    hunks_applied (fst (apply_single_file_patch e fs pf target_dir True))
      = hunks_applied (fst (apply_single_file_patch e fs pf target_dir False)))"
proof -
  obtain acc fs' where
    l: "apply_patches_loop e target_dir True 0 patches (no_results, fs) = (acc, fs')"
    by (cases "apply_patches_loop e target_dir True 0 patches (no_results, fs)")
  with apply_patches_loop_dry[of e target_dir 0 patches no_results fs] have "fs' = fs" by simp
  with l have 1: "snd (apply_patches e fs patches target_dir True) = fs"
    by (simp add: apply_patches_def)
  note d = file_outcome[of e fs pf target_dir True]
  note r = file_outcome[of e fs pf target_dir False]
  from d have 2: "success (fst (apply_single_file_patch e fs pf target_dir True)) \<longleftrightarrow>
      checks_pass e fs pf (resolve_file_path (path pf) target_dir)"
    by simp
  from r 2 have 3: "success (fst (apply_single_file_patch e fs pf target_dir False)) \<longleftrightarrow>
      success (fst (apply_single_file_patch e fs pf target_dir True)) \<and>
      skipped_calls_return e fs pf (resolve_file_path (path pf) target_dir)"
    by simp
  from d have 4: "\<not> success (fst (apply_single_file_patch e fs pf target_dir True)) \<longrightarrow>
      apply_single_file_patch e fs pf target_dir False
        = apply_single_file_patch e fs pf target_dir True"
    by blast
  from d have 5: "success (fst (apply_single_file_patch e fs pf target_dir False)) \<longrightarrow>
      lines_added (fst (apply_single_file_patch e fs pf target_dir False))
        = lines_added (fst (apply_single_file_patch e fs pf target_dir True)) \<and>
      lines_removed (fst (apply_single_file_patch e fs pf target_dir False))
        = lines_removed (fst (apply_single_file_patch e fs pf target_dir True)) \<and>
      hunks_applied (fst (apply_single_file_patch e fs pf target_dir False))
        = hunks_applied (fst (apply_single_file_patch e fs pf target_dir True))"
    by blast
  from 3 4 5 have 6: "(success (fst (apply_single_file_patch e fs pf target_dir True)) \<longrightarrow>
       success (fst (apply_single_file_patch e fs pf target_dir False))) \<longrightarrow>
    success (fst (apply_single_file_patch e fs pf target_dir True))
      = success (fst (apply_single_file_patch e fs pf target_dir False)) \<and>
    lines_added (fst (apply_single_file_patch e fs pf target_dir True))
      = lines_added (fst (apply_single_file_patch e fs pf target_dir False)) \<and>
    lines_removed (fst (apply_single_file_patch e fs pf target_dir True))
      = lines_removed (fst (apply_single_file_patch e fs pf target_dir False)) \<and>
    hunks_applied (fst (apply_single_file_patch e fs pf target_dir True))
      = hunks_applied (fst (apply_single_file_patch e fs pf target_dir False))"
    by (cases "success (fst (apply_single_file_patch e fs pf target_dir True))") auto
  from 1 2 3 4 6 show ?thesis by blast
qed

text \<open>
  The addition of \<^verbatim>\<open>new.py\<close> succeeds in both modes with the same counts; once the file is
  there, it fails in both modes with the same result.
\<close>

theorem dry_run_purity_witness:
  "snd (apply_patches ex_env ex_fs [ex_add_diff, ex_add_diff] ex_root True) = ex_fs \<and>
   success (fst (apply_single_file_patch ex_env ex_fs ex_add ex_root True)) \<and>
   success (fst (apply_single_file_patch ex_env ex_fs ex_add ex_root False)) \<and>
   lines_added (fst (apply_single_file_patch ex_env ex_fs ex_add ex_root True))
     = lines_added (fst (apply_single_file_patch ex_env ex_fs ex_add ex_root False)) \<and>
   lines_removed (fst (apply_single_file_patch ex_env ex_fs ex_add ex_root True))
     = lines_removed (fst (apply_single_file_patch ex_env ex_fs ex_add ex_root False)) \<and>
   hunks_applied (fst (apply_single_file_patch ex_env ex_fs ex_add ex_root True))
     = hunks_applied (fst (apply_single_file_patch ex_env ex_fs ex_add ex_root False)) \<and>
   \<not> success (fst (apply_single_file_patch ex_env ex_added ex_add ex_root True)) \<and>
   apply_single_file_patch ex_env ex_added ex_add ex_root False
     = apply_single_file_patch ex_env ex_added ex_add ex_root True"
proof -
  note a = dry_run_purity[of ex_env ex_fs "[ex_add_diff, ex_add_diff]" ex_root ex_add]
  note b = dry_run_purity[of ex_env ex_added "[]" ex_root ex_add]
  have s: "success (fst (apply_single_file_patch ex_env ex_fs ex_add ex_root True))"
    "success (fst (apply_single_file_patch ex_env ex_fs ex_add ex_root False))"
    "\<not> success (fst (apply_single_file_patch ex_env ex_added ex_add ex_root True))"
    by (simp_all add: ex_add_dry ex_add_real' ex_add_again_dry mk_PatchResult_def)
  from a s(1,2) b s(3) show ?thesis by blast
qed

subsection \<open>Failures stay with their file or diff (C5)\<close>



subsection \<open>Removing a file (C6)\<close>

text \<open>
  C6, as stated: a Remove checks the file's content against the lines of its hunk and
  fails without deleting when they differ. The code has no such check: \<^verbatim>\<open>f.py\<close> holds
  \<^verbatim>\<open>a\<close>, \<^verbatim>\<open>b\<close>, the hunk lists the single line \<^verbatim>\<open>zzz\<close>, and the file is deleted with success.
\<close>

theorem removal_without_validation:
  "locate ex_env ex_fs ex_file = Some [''repo'', ''f.py''] \<and>
   files ex_fs [''repo'', ''f.py''] = Some ''a\<newline>b\<newline>'' \<and>
   map line_value (concat (map hunk_lines (hunks ex_remove))) = [''zzz\<newline>''] \<and>
   \<not> isl (handle_removed_file ex_env ex_fs ex_remove ex_file False) \<and>
   success (fst (projr (handle_removed_file ex_env ex_fs ex_remove ex_file False))) \<and>
   files (snd (projr (handle_removed_file ex_env ex_fs ex_remove ex_file False)))
     [''repo'', ''f.py''] = None"
  by (simp add: ex_remove_real)
     (simp add: locate_def ex_defs mk_PatchResult_def)

text \<open>
  C6, amended. A Remove fails, changing nothing, when the target path does not exist.
  When it exists, as a file or as a directory, a dry run reports success. A real run
  makes the backup and deletes the file without looking at the lines of the hunks: when
  the backup and the deletion return, the result is a success that names the backup, the
  backup holds the content that the file had, the file is gone, and no other file has
  changed.
\<close>

theorem remove_deletes_after_backup:
  "(exists_path e fs fp = Inr False \<longrightarrow>
      handle_removed_file e fs pf fp dry_run
        = Inr ((mk_PatchResult False (str_path fp))
                 \<lparr>error := Some ''Cannot remove file that doesn't exist''\<rparr>, fs)) \<and>
   (exists_path e fs fp = Inr True \<longrightarrow>
      handle_removed_file e fs pf fp True
        = Inr ((mk_PatchResult True (str_path fp))
                 \<lparr>lines_added := 0, lines_removed := removed pf,
                   hunks_applied := int (length (hunks pf))\<rparr>, fs)) \<and>
   (exists_path e fs fp = Inr True \<and> create_backup e fs fp = (Inr bp, fs1) \<and>
    unlink e fs1 fp = Inr fs2 \<longrightarrow>
      handle_removed_file e fs pf fp False
        = Inr ((mk_PatchResult True (str_path fp))
                 \<lparr>lines_added := 0, lines_removed := removed pf,
                   hunks_applied := int (length (hunks pf)),
                   backup_path := Some (str_path bp)\<rparr>, fs2) \<and>
      (\<exists>l c b. locate e fs fp = Some l \<and> files fs l = Some c \<and>
         copy_target e fs2 fp bp = Some b \<and> b \<noteq> l \<and>
         files fs2 b = Some c \<and> files fs2 l = None \<and>
         files fs2 = (files fs)(b \<mapsto> c, l := None)))"
proof (intro conjI impI)
  assume "exists_path e fs fp = Inr False"
  then show "handle_removed_file e fs pf fp dry_run
        = Inr ((mk_PatchResult False (str_path fp))
                 \<lparr>error := Some ''Cannot remove file that doesn't exist''\<rparr>, fs)"
    by (simp add: handle_removed_file_def)
next
  assume "exists_path e fs fp = Inr True"
  then show "handle_removed_file e fs pf fp True
        = Inr ((mk_PatchResult True (str_path fp))
                 \<lparr>lines_added := 0, lines_removed := removed pf,
                   hunks_applied := int (length (hunks pf))\<rparr>, fs)"
    by (simp add: handle_removed_file_def)
next
  assume a: "exists_path e fs fp = Inr True \<and> create_backup e fs fp = (Inr bp, fs1) \<and>
    unlink e fs1 fp = Inr fs2"
  then show h: "handle_removed_file e fs pf fp False
        = Inr ((mk_PatchResult True (str_path fp))
                 \<lparr>lines_added := 0, lines_removed := removed pf,
                   hunks_applied := int (length (hunks pf)),
                   backup_path := Some (str_path bp)\<rparr>, fs2)"
    by (simp add: handle_removed_file_def)
  from a exists_path_True obtain l0 where l0: "locate e fs fp = Some l0" by blast
  from a create_backup_Inr[of e fs fp bp fs1] obtain l c b where
    bp: "bp = backup_path_of fp (strftime (now e (clock fs)))"
    and l: "locate e fs1 fp = Some l" and d: "dirs fs \<subseteq> dirs fs1"
    by blast
  from locate_mono[OF l0 d] l have ll: "l0 = l" by simp
  have s: "success ((mk_PatchResult True (str_path fp))
                 \<lparr>lines_added := 0, lines_removed := removed pf,
                   hunks_applied := int (length (hunks pf)),
                   backup_path := Some (str_path bp)\<rparr>)"
    by (simp add: mk_PatchResult_def)
  from removed_file_effect[OF h s] obtain l' c' b' where
    e: "locate e fs2 fp = Some l'" "files fs l' = Some c'"
       "copy_target e fs2 fp bp = Some b'" "b' \<noteq> l'"
       "files fs2 = (files fs)(b' \<mapsto> c', l' := None)"
    using bp by blast
  from a unlink_Inr[of e fs1 fp fs2] l have "locate e fs2 fp = Some l"
    by (auto simp: locate_def)
  with e(1) have "l' = l" by simp
  with e ll l0 show "\<exists>l c b. locate e fs fp = Some l \<and> files fs l = Some c \<and>
         copy_target e fs2 fp bp = Some b \<and> b \<noteq> l \<and>
         files fs2 b = Some c \<and> files fs2 l = None \<and>
         files fs2 = (files fs)(b \<mapsto> c, l := None)"
    by (intro exI[of _ l] exI[of _ c'] exI[of _ b']) simp
qed

text \<open>
  The removal of \<^verbatim>\<open>new.py\<close>, which does not exist, fails; the dry run on the directory
  \<^verbatim>\<open>pkg\<close> reports success; the removal of \<^verbatim>\<open>f.py\<close> succeeds, leaving its backup.
\<close>

theorem remove_deletes_after_backup_witness:
  "handle_removed_file ex_env ex_fs ex_remove ex_new_file False
     = Inr ((mk_PatchResult False ''/repo/new.py'')
              \<lparr>error := Some ''Cannot remove file that doesn't exist''\<rparr>, ex_fs) \<and>
   handle_removed_file ex_env ex_fs ex_remove ex_dir True
     = Inr ((mk_PatchResult True ''/repo/pkg'')\<lparr>lines_removed := 1, hunks_applied := 1\<rparr>,
            ex_fs) \<and>
   handle_removed_file ex_env ex_fs ex_remove ex_file False
     = Inr ((mk_PatchResult True ''/repo/f.py'')
              \<lparr>lines_removed := 1, hunks_applied := 1,
                backup_path := Some ''/repo/.qualityforge_backups/f.py.20240101_120000.backup''\<rparr>,
            ex_removed) \<and>
   files ex_removed ex_backup = Some ''a\<newline>b\<newline>'' \<and>
   files ex_removed [''repo'', ''f.py''] = None"
proof -
  note a = remove_deletes_after_backup[where e = ex_env and fs = ex_fs and fp = ex_new_file
      and pf = ex_remove and dry_run = False]
  note b = remove_deletes_after_backup[where e = ex_env and fs = ex_fs and fp = ex_dir
      and pf = ex_remove]
  note c = remove_deletes_after_backup[where e = ex_env and fs = ex_fs and fp = ex_file
      and pf = ex_remove and bp = ex_backup_path and ?fs1.0 = ex_backed_up
      and ?fs2.0 = ex_removed]
  from a ex_exists(4)
  have "handle_removed_file ex_env ex_fs ex_remove ex_new_file False
     = Inr ((mk_PatchResult False (str_path ex_new_file))
              \<lparr>error := Some ''Cannot remove file that doesn't exist''\<rparr>, ex_fs)"
    by blast
  then have 1: "handle_removed_file ex_env ex_fs ex_remove ex_new_file False
     = Inr ((mk_PatchResult False ''/repo/new.py'')
              \<lparr>error := Some ''Cannot remove file that doesn't exist''\<rparr>, ex_fs)"
    by (simp add: str_path_def ex_new_file_def)
  from b ex_exists(2)
  have "handle_removed_file ex_env ex_fs ex_remove ex_dir True
        = Inr ((mk_PatchResult True (str_path ex_dir))
                 \<lparr>lines_added := 0, lines_removed := removed ex_remove,
                   hunks_applied := int (length (hunks ex_remove))\<rparr>, ex_fs)"
    by blast
  then have 2: "handle_removed_file ex_env ex_fs ex_remove ex_dir True
     = Inr ((mk_PatchResult True ''/repo/pkg'')\<lparr>lines_removed := 1, hunks_applied := 1\<rparr>,
            ex_fs)"
    by (simp add: str_path_def ex_dir_def ex_remove_def removed_def is_removed_def
          mk_PatchResult_def)
  from c ex_exists(1) ex_backup_made' ex_unlink
  have r: "handle_removed_file ex_env ex_fs ex_remove ex_file False
        = Inr ((mk_PatchResult True (str_path ex_file))
                 \<lparr>lines_added := 0, lines_removed := removed ex_remove,
                   hunks_applied := int (length (hunks ex_remove)),
                   backup_path := Some (str_path ex_backup_path)\<rparr>, ex_removed)"
    and "\<exists>l c b. locate ex_env ex_fs ex_file = Some l \<and> files ex_fs l = Some c \<and>
         copy_target ex_env ex_removed ex_file ex_backup_path = Some b \<and> b \<noteq> l \<and>
         files ex_removed b = Some c \<and> files ex_removed l = None \<and>
         files ex_removed = (files ex_fs)(b \<mapsto> c, l := None)"
    by blast+
  then obtain l c b where
    lcb: "locate ex_env ex_fs ex_file = Some l" "files ex_fs l = Some c"
      "copy_target ex_env ex_removed ex_file ex_backup_path = Some b"
      "files ex_removed b = Some c" "files ex_removed l = None"
    by blast
  have "locate ex_env ex_fs ex_file = Some [''repo'', ''f.py'']"
    "files ex_fs [''repo'', ''f.py''] = Some ''a\<newline>b\<newline>''"
    "copy_target ex_env ex_removed ex_file ex_backup_path = Some ex_backup"
    by (simp_all add: copy_target_def locate_def ex_defs ex_removed_def ex_backed_up_def
          ex_backup_path_def)
  with lcb have 4: "files ex_removed ex_backup = Some ''a\<newline>b\<newline>''"
    "files ex_removed [''repo'', ''f.py''] = None"
    by simp_all
  from r have 3: "handle_removed_file ex_env ex_fs ex_remove ex_file False
     = Inr ((mk_PatchResult True ''/repo/f.py'')
              \<lparr>lines_removed := 1, hunks_applied := 1,
                backup_path := Some ''/repo/.qualityforge_backups/f.py.20240101_120000.backup''\<rparr>,
            ex_removed)"
    by (simp add: str_path_def ex_file_def ex_backup_path_def ex_remove_def removed_def
          is_removed_def mk_PatchResult_def)
  from 1 2 3 4 show ?thesis by blast
qed

subsection \<open>Adding a file (C7)\<close>



subsection \<open>Order and place of the hunks (C8)\<close>




subsection \<open>Path resolution (C9)\<close>

lemma normalise_plain: "''..'' \<notin> set cs \<Longrightarrow> normalise a acc cs = rev acc @ cs"
  by (induction cs arbitrary: acc) auto

lemma normalise_append:
  "normalise a acc (xs @ ys) = normalise a (rev (normalise a acc xs)) ys"
  by (induction xs arbitrary: acc) auto

text \<open>
  C9, as stated: a relative diff path that leaves the target root through \<^verbatim>\<open>..\<close> is
  rejected. The code has no such check: \<^verbatim>\<open>../secret.py\<close> under \<^verbatim>\<open>/repo\<close> resolves to
  \<^verbatim>\<open>/repo/../secret.py\<close>, which is outside \<^verbatim>\<open>/repo\<close>.
\<close>

theorem traversal_is_not_rejected:
  "\<not> is_absolute (Path_of (clean_path ''../secret.py'')) \<and>
   resolve_file_path ''../secret.py'' ex_root = PosixPath True [''repo'', ''..'', ''secret.py''] \<and>
   escapes ex_root (resolve_file_path ''../secret.py'' ex_root)"
  by (simp add: path_defs ex_root_def escapes_def normpath_def)

text \<open>
  C9, amended. Path resolution never fails. A diff path that is relative once its
  \<^verbatim>\<open>a/\<close> or \<^verbatim>\<open>b/\<close> prefix is dropped resolves to the target root followed by the
  components of the path, \<^verbatim>\<open>..\<close> components included; when it has no \<^verbatim>\<open>..\<close> component, the
  resolved path is inside the target root.
\<close>

theorem relative_path_joined_under_root:
  assumes "\<not> is_absolute (Path_of (clean_path patch_path))"
  shows "resolve_file_path patch_path target_dir
           = PosixPath (is_absolute target_dir)
               (parts target_dir @ parts (Path_of (clean_path patch_path))) \<and>
         (''..'' \<notin> set (parts (Path_of (clean_path patch_path))) \<longrightarrow>
            \<not> escapes target_dir (resolve_file_path patch_path target_dir))"
proof -
  have r: "resolve_file_path patch_path target_dir
           = PosixPath (is_absolute target_dir)
               (parts target_dir @ parts (Path_of (clean_path patch_path)))"
    using assms by (simp add: resolve_file_path_def joinpath_def Let_def)
  have "normpath (resolve_file_path patch_path target_dir)
          = normpath target_dir @ parts (Path_of (clean_path patch_path))"
    if "''..'' \<notin> set (parts (Path_of (clean_path patch_path)))"
    using that by (simp add: r normpath_def normalise_append normalise_plain)
  then show ?thesis using r by (simp add: escapes_def)
qed

theorem relative_path_joined_under_root_witness:
  "\<not> is_absolute (Path_of (clean_path ''a/src/m.py'')) \<and>
   ''..'' \<notin> set (parts (Path_of (clean_path ''a/src/m.py''))) \<and>
   resolve_file_path ''a/src/m.py'' ex_root = PosixPath True [''repo'', ''src'', ''m.py''] \<and>
   \<not> escapes ex_root (resolve_file_path ''a/src/m.py'' ex_root)"
proof -
  have h: "\<not> is_absolute (Path_of (clean_path ''a/src/m.py''))"
    by (simp add: path_defs)
  have g: "''..'' \<notin> set (parts (Path_of (clean_path ''a/src/m.py'')))"
    by (simp add: path_defs)
  have p: "parts (Path_of (clean_path ''a/src/m.py'')) = [''src'', ''m.py'']"
    by (simp add: path_defs)
  note w = relative_path_joined_under_root[OF h, of ex_root]
  from w have r: "resolve_file_path ''a/src/m.py'' ex_root
      = PosixPath True [''repo'', ''src'', ''m.py'']"
    by (simp add: p ex_root_def)
  from w g have "\<not> escapes ex_root (resolve_file_path ''a/src/m.py'' ex_root)"
    by blast
  with h g r show ?thesis by blast
qed

subsection \<open>A hunk beyond the end of the file (C10)\<close>

text \<open>
  C10. A hunk whose \<^verbatim>\<open>target_start\<close> lies beyond the end of the buffer is applied all the
  same, and the result is the buffer followed by the hunk's context and added lines. A
  Modify, whatever its hunks, reports success in a dry run when the file exists and can be
  read, and in a real run when the backup and the write return as well; when its only hunk
  lies beyond the end, the file then holds the text that was read, which is the content
  with CR LF and CR turned into LF, followed by the context and added lines of the hunk.
\<close>

theorem hunk_beyond_end_is_appended:
  "(int (length buf) < target_start h \<longrightarrow>
      apply_single_hunk buf h
        = buf @ map line_value (filter (\<lambda>l. line_type l \<noteq> Removed) (hunk_lines h))) \<and>
   (exists_path e fs fp = Inr True \<and> read_text e fs fp = Inr original \<longrightarrow>
      handle_modified_file e fs pf fp True
        = Inr ((mk_PatchResult True (str_path fp))
                 \<lparr>lines_added := added pf, lines_removed := removed pf,
                   hunks_applied := int (length (hunks pf))\<rparr>, fs)) \<and>
   (exists_path e fs fp = Inr True \<and> read_text e fs fp = Inr original \<and>
    create_backup e fs fp = (Inr bp, fs1) \<and>
    write_text e fs1 fp
      (concat (apply_hunks_to_content (splitlines_keepends original) pf)) = Inr fs2 \<longrightarrow>
      handle_modified_file e fs pf fp False
        = Inr ((mk_PatchResult True (str_path fp))
                 \<lparr>lines_added := added pf, lines_removed := removed pf,
                   hunks_applied := int (length (hunks pf)),
                   backup_path := Some (str_path bp)\<rparr>, fs2) \<and>
      (hunks pf = [h] \<and> int (length (splitlines_keepends original)) < target_start h \<longrightarrow>
         (\<exists>l c. locate e fs fp = Some l \<and> files fs l = Some c \<and>
            files fs2 l = Some (universal_newlines c
              @ concat (map line_value
                          (filter (\<lambda>l. line_type l \<noteq> Removed) (hunk_lines h)))))))"
proof (intro conjI impI)
  assume "int (length buf) < target_start h"
  then have "1 \<le> target_start h" and "length buf \<le> nat (target_start h - 1)" by linarith+
  then show "apply_single_hunk buf h
        = buf @ map line_value (filter (\<lambda>l. line_type l \<noteq> Removed) (hunk_lines h))"
    by (simp add: apply_single_hunk_splice)
next
  assume "exists_path e fs fp = Inr True \<and> read_text e fs fp = Inr original"
  then show "handle_modified_file e fs pf fp True
        = Inr ((mk_PatchResult True (str_path fp))
                 \<lparr>lines_added := added pf, lines_removed := removed pf,
                   hunks_applied := int (length (hunks pf))\<rparr>, fs)"
    by (simp add: handle_modified_file_def)
next
  assume a: "exists_path e fs fp = Inr True \<and> read_text e fs fp = Inr original \<and>
    create_backup e fs fp = (Inr bp, fs1) \<and>
    write_text e fs1 fp
      (concat (apply_hunks_to_content (splitlines_keepends original) pf)) = Inr fs2"
  then show h: "handle_modified_file e fs pf fp False
        = Inr ((mk_PatchResult True (str_path fp))
                 \<lparr>lines_added := added pf, lines_removed := removed pf,
                   hunks_applied := int (length (hunks pf)),
                   backup_path := Some (str_path bp)\<rparr>, fs2)"
    by (simp add: handle_modified_file_def)
  assume b: "hunks pf = [h] \<and> int (length (splitlines_keepends original)) < target_start h"
  then have "1 \<le> target_start h"
    and "length (splitlines_keepends original) \<le> nat (target_start h - 1)" by linarith+
  then have ap: "apply_hunks_to_content (splitlines_keepends original) pf
      = splitlines_keepends original
        @ map line_value (filter (\<lambda>l. line_type l \<noteq> Removed) (hunk_lines h))"
    using b by (simp add: apply_hunks_to_content_def apply_single_hunk_splice)
  have s: "success ((mk_PatchResult True (str_path fp))
                 \<lparr>lines_added := added pf, lines_removed := removed pf,
                   hunks_applied := int (length (hunks pf)),
                   backup_path := Some (str_path bp)\<rparr>)"
    by (simp add: mk_PatchResult_def)
  from modified_file_effect[OF h s] obtain l c b' where
    e: "locate e fs fp = Some l" "files fs l = Some c"
       "files fs2 = (files fs)(b' \<mapsto> c,
          l \<mapsto> concat (apply_hunks_to_content (splitlines_keepends (universal_newlines c)) pf))"
    by blast
  from a read_text_Inr[of e fs fp original] e(1,2) have o: "original = universal_newlines c"
    by auto
  from e(3) have "files fs2 l
      = Some (concat (apply_hunks_to_content (splitlines_keepends original) pf))"
    by (simp add: o)
  then have "files fs2 l = Some (universal_newlines c
              @ concat (map line_value
                          (filter (\<lambda>l. line_type l \<noteq> Removed) (hunk_lines h))))"
    using ap by (simp add: concat_splitlines_keepends o)
  with e(1,2) show "\<exists>l c. locate e fs fp = Some l \<and> files fs l = Some c \<and>
            files fs2 l = Some (universal_newlines c
              @ concat (map line_value
                          (filter (\<lambda>l. line_type l \<noteq> Removed) (hunk_lines h))))"
    by blast
qed

text \<open>
  A hunk at line 5 of the two lines of \<^verbatim>\<open>w.py\<close>, which end in CR LF: the third line is
  appended, the file is written with LF, and both modes report success.
\<close>

theorem hunk_beyond_end_is_appended_witness:
  "files ex_fs [''repo'', ''w.py'']
     = Some [CHR ''a'', CHR 0x0D, CHR 0x0A, CHR ''b'', CHR 0x0D, CHR 0x0A] \<and>
   target_start ex_far_hunk = 5 \<and>
   apply_single_hunk [''a\<newline>'', ''b\<newline>''] ex_far_hunk = [''a\<newline>'', ''b\<newline>'', ''z\<newline>''] \<and>
   handle_modified_file ex_env ex_fs ex_far ex_crlf_file True
     = Inr ((mk_PatchResult True ''/repo/w.py'')\<lparr>lines_added := 1, hunks_applied := 1\<rparr>,
            ex_fs) \<and>
   handle_modified_file ex_env ex_fs ex_far ex_crlf_file False
     = Inr ((mk_PatchResult True ''/repo/w.py'')
              \<lparr>lines_added := 1, hunks_applied := 1,
                backup_path := Some ''/repo/.qualityforge_backups/w.py.20240101_120000.backup''\<rparr>,
            ex_appended) \<and>
   files ex_appended [''repo'', ''w.py''] = Some ''a\<newline>b\<newline>z\<newline>''"
proof -
  note t = hunk_beyond_end_is_appended[where buf = "[''a\<newline>'', ''b\<newline>'']" and h = ex_far_hunk
      and e = ex_env and fs = ex_fs and fp = ex_crlf_file and original = "''a\<newline>b\<newline>''"
      and pf = ex_far and bp = "PosixPath True ex_crlf_backup" and ?fs1.0 = ex_crlf_backed_up
      and ?fs2.0 = ex_appended, unfolded ex_far_applied]
  have far: "int (length [''a\<newline>'', ''b\<newline>'']) < target_start ex_far_hunk"
    "target_start ex_far_hunk = 5"
    by (simp_all add: ex_far_hunk_def)
  from t far(1) have "apply_single_hunk [''a\<newline>'', ''b\<newline>''] ex_far_hunk
        = [''a\<newline>'', ''b\<newline>'']
          @ map line_value (filter (\<lambda>l. line_type l \<noteq> Removed) (hunk_lines ex_far_hunk))"
    by blast
  then have 1: "apply_single_hunk [''a\<newline>'', ''b\<newline>''] ex_far_hunk
      = [''a\<newline>'', ''b\<newline>'', ''z\<newline>'']"
    by (simp add: ex_far_hunk_def)
  from t ex_crlf_exists ex_read(2)
  have "handle_modified_file ex_env ex_fs ex_far ex_crlf_file True
        = Inr ((mk_PatchResult True (str_path ex_crlf_file))
                 \<lparr>lines_added := added ex_far, lines_removed := removed ex_far,
                   hunks_applied := int (length (hunks ex_far))\<rparr>, ex_fs)"
    by blast
  then have 2: "handle_modified_file ex_env ex_fs ex_far ex_crlf_file True
     = Inr ((mk_PatchResult True ''/repo/w.py'')\<lparr>lines_added := 1, hunks_applied := 1\<rparr>,
            ex_fs)"
    by (simp add: str_path_def ex_crlf_file_def ex_far_def ex_far_hunk_def added_def removed_def
          is_added_def is_removed_def mk_PatchResult_def)
  have single: "hunks ex_far = [ex_far_hunk]"
    "int (length (splitlines_keepends ''a\<newline>b\<newline>'')) < target_start ex_far_hunk"
    by (simp_all add: ex_far_def ex_far_hunk_def is_linebreak_def)
  from t ex_crlf_exists ex_read(2) ex_crlf_backup_made ex_crlf_write single
  have r: "handle_modified_file ex_env ex_fs ex_far ex_crlf_file False
        = Inr ((mk_PatchResult True (str_path ex_crlf_file))
                 \<lparr>lines_added := added ex_far, lines_removed := removed ex_far,
                   hunks_applied := int (length (hunks ex_far)),
                   backup_path := Some (str_path (PosixPath True ex_crlf_backup))\<rparr>, ex_appended)"
    and "\<exists>l c. locate ex_env ex_fs ex_crlf_file = Some l \<and> files ex_fs l = Some c \<and>
            files ex_appended l = Some (universal_newlines c
              @ concat (map line_value
                          (filter (\<lambda>l. line_type l \<noteq> Removed) (hunk_lines ex_far_hunk))))"
    by blast+
  then obtain l c where lc: "locate ex_env ex_fs ex_crlf_file = Some l" "files ex_fs l = Some c"
    "files ex_appended l = Some (universal_newlines c
              @ concat (map line_value
                          (filter (\<lambda>l. line_type l \<noteq> Removed) (hunk_lines ex_far_hunk))))"
    by blast
  have loc: "locate ex_env ex_fs ex_crlf_file = Some [''repo'', ''w.py'']"
    "files ex_fs [''repo'', ''w.py'']
       = Some [CHR ''a'', CHR 0x0D, CHR 0x0A, CHR ''b'', CHR 0x0D, CHR 0x0A]"
    by (simp_all add: locate_def ex_defs)
  with lc have l: "l = [''repo'', ''w.py'']"
    and c: "c = [CHR ''a'', CHR 0x0D, CHR 0x0A, CHR ''b'', CHR 0x0D, CHR 0x0A]"
    by simp_all
  from lc(3) have 4: "files ex_appended [''repo'', ''w.py''] = Some ''a\<newline>b\<newline>z\<newline>''"
    unfolding l c by (simp add: ex_far_hunk_def)
  from r have 3: "handle_modified_file ex_env ex_fs ex_far ex_crlf_file False
     = Inr ((mk_PatchResult True ''/repo/w.py'')
              \<lparr>lines_added := 1, hunks_applied := 1,
                backup_path := Some ''/repo/.qualityforge_backups/w.py.20240101_120000.backup''\<rparr>,
            ex_appended)"
    by (simp add: str_path_def ex_crlf_file_def ex_far_def ex_far_hunk_def added_def removed_def
          is_added_def is_removed_def mk_PatchResult_def ex_crlf_backup_def)
  from loc(2) far(2) 1 2 3 4 show ?thesis by blast
qed

end
